theory Spec2Isabelle
  imports Complex_Main "HOL-Library.Log_Nat"
begin

section \<open>Values, f-strings and errors\<close>

text \<open>
  The network builder \<^verbatim>\<open>DSSDriver\<close> of \<^verbatim>\<open>backend.py\<close> reads rows of pandas tables and
  sends text commands to the OpenDSS engine. A table cell is a Python string, integer
  or float. A finite float is modelled by the rational number it denotes, and every
  arithmetic operation on floats rounds its exact result to the nearest double (\<open>fl\<close>
  below). An infinite float is \<open>PyInf negative\<close>; it arises only where a product
  overflows. NaN is outside the model: no cell of a table is NaN.
\<close>

datatype cell = PyStr string | PyInt int | PyFloat rat | PyInf bool | PyList "rat list"

text \<open>
  Every command is built by an f-string. An f-string is kept as the sequence of its
  literal parts and of the values it interpolates, in source order: \<^verbatim>\<open>f"kV={kv} "\<close> is
  \<open>[Lit ''kV='', Val kv, Lit '' '']\<close>. Adjacent f-string literals of one parenthesised
  expression are appended. The text Python would produce is the concatenation of the
  literals and of \<^verbatim>\<open>str\<close> of each value; \<^verbatim>\<open>str\<close> of a float is not modelled, so the
  values stay unrendered.
\<close>

datatype piece = Lit string | Val cell

type_synonym fstring = "piece list"

text \<open>The exceptions of Python that the modelled code can raise.\<close>

datatype error = KeyError | IndexError | TypeError | ValueError

subsection \<open>\<^verbatim>\<open>str\<close> of an integer\<close>

definition digit_char :: "nat \<Rightarrow> char" where
  "digit_char d =
     (if d = 0 then CHR ''0'' else if d = 1 then CHR ''1'' else if d = 2 then CHR ''2''
      else if d = 3 then CHR ''3'' else if d = 4 then CHR ''4'' else if d = 5 then CHR ''5''
      else if d = 6 then CHR ''6'' else if d = 7 then CHR ''7'' else if d = 8 then CHR ''8''
      else CHR ''9'')"

fun str_nat :: "nat \<Rightarrow> string" where
  "str_nat n = (if n < 10 then [digit_char n] else str_nat (n div 10) @ [digit_char (n mod 10)])"

definition str_int :: "int \<Rightarrow> string" where
  "str_int i = (if i < 0 then CHR ''-'' # str_nat (nat (- i)) else str_nat (nat i))"

subsection \<open>\<^verbatim>\<open>sep.join\<close>, \<^verbatim>\<open>itertools.permutations\<close>, \<^verbatim>\<open>d[k]\<close>\<close>

fun join :: "string \<Rightarrow> string list \<Rightarrow> string" where
  "join sep [] = []"
| "join sep [x] = x"
| "join sep (x # y # ys) = x @ sep @ join sep (y # ys)"

text \<open>
  \<^verbatim>\<open>permutations(pool, r)\<close>: the \<open>r\<close>-length arrangements of the positions of \<open>pool\<close>,
  in the order of the positions.
\<close>

fun permutations :: "'a list \<Rightarrow> nat \<Rightarrow> 'a list list" where
  "permutations pool 0 = [[]]"
| "permutations pool (Suc r) =
     concat (map (\<lambda>i. map ((#) (pool ! i)) (permutations (take i pool @ drop (Suc i) pool) r))
                 [0..<length pool])"

text \<open>Subscription \<^verbatim>\<open>d[k]\<close> of a dictionary raises \<^verbatim>\<open>KeyError\<close> on an absent key.\<close>

definition subscript :: "('k \<rightharpoonup> 'v) \<Rightarrow> 'k \<Rightarrow> error + 'v" where
  "subscript d k = (case d k of None \<Rightarrow> Inl KeyError | Some v \<Rightarrow> Inr v)"

section \<open>The phase-code table \<^verbatim>\<open>char_to_num\<close>\<close>

text \<open>
  \<^verbatim>\<open>mv_txs\<close> and \<^verbatim>\<open>lv_tx\<close> both start with
  \<^verbatim>\<open>
  three_ph_combi = [''.join(perm) for perm in list(permutations(['R', 'W', 'B']))]
  two_ph_combi = [''.join(perm) for perm in list(permutations(['R', 'B', 'W'], 2))]
  one_ph_combi = [''.join(perm) for perm in list(permutations(['R', 'B', 'W'], 1))]
  char_to_num = {key: '.'.join(str({'R': 1, 'W': 2, 'B': 3}[char]) for char in key)
                 for key in three_ph_combi + two_ph_combi+one_ph_combi}
  \<close>
\<close>

definition three_ph_combi :: "string list" where
  "three_ph_combi = permutations [CHR ''R'', CHR ''W'', CHR ''B''] 3"

definition two_ph_combi :: "string list" where
  "two_ph_combi = permutations [CHR ''R'', CHR ''B'', CHR ''W''] 2"

definition one_ph_combi :: "string list" where
  "one_ph_combi = permutations [CHR ''R'', CHR ''B'', CHR ''W''] 1"

definition phase_index :: "char \<rightharpoonup> int" where
  "phase_index = [CHR ''R'' \<mapsto> 1, CHR ''W'' \<mapsto> 2, CHR ''B'' \<mapsto> 3]"

text \<open>The value of one key; the inner subscription can raise \<^verbatim>\<open>KeyError\<close>.\<close>

fun phase_numbers :: "string \<Rightarrow> error + string list" where
  "phase_numbers [] = Inr []"
| "phase_numbers (c # cs) =
     (case subscript phase_index c of
        Inl e \<Rightarrow> Inl e
      | Inr n \<Rightarrow> (case phase_numbers cs of Inl e \<Rightarrow> Inl e | Inr ns \<Rightarrow> Inr (str_int n # ns)))"

definition dotted :: "string \<Rightarrow> error + string" where
  "dotted key = (case phase_numbers key of Inl e \<Rightarrow> Inl e | Inr ns \<Rightarrow> Inr (join ''.'' ns))"

text \<open>The dictionary comprehension: keys in order, a later key overwriting an earlier one.\<close>

fun dict_comp :: "('k \<Rightarrow> error + 'v) \<Rightarrow> 'k list \<Rightarrow> ('k \<rightharpoonup> 'v) \<Rightarrow> error + ('k \<rightharpoonup> 'v)" where
  "dict_comp f [] d = Inr d"
| "dict_comp f (k # ks) d =
     (case f k of Inl e \<Rightarrow> Inl e | Inr v \<Rightarrow> dict_comp f ks (d(k \<mapsto> v)))"

definition char_to_num :: "error + (string \<rightharpoonup> string)" where
  "char_to_num = dict_comp dotted (three_ph_combi @ two_ph_combi @ one_ph_combi) Map.empty"

text \<open>
  Phase-code translation is the expression \<^verbatim>\<open>char_to_num[row['Conn_Type']]\<close>.
\<close>

definition translate_phase_code :: "string \<Rightarrow> error + string" where
  "translate_phase_code code =
     (case char_to_num of Inl e \<Rightarrow> Inl e | Inr d \<Rightarrow> subscript d code)"

text \<open>
  The spec's words for the result: the dot-separated digits under R to 1, W to 2, B to 3.
\<close>

definition spec_phase_digit :: "char \<Rightarrow> string" where
  "spec_phase_digit c = (if c = CHR ''R'' then ''1'' else if c = CHR ''W'' then ''2'' else ''3'')"

definition spec_phase_suffix :: "string \<Rightarrow> string" where
  "spec_phase_suffix code = join ''.'' (map spec_phase_digit code)"

definition rwb_permutation :: "string \<Rightarrow> bool" where
  "rwb_permutation code \<longleftrightarrow>
     code \<noteq> [] \<and> length code \<le> 3 \<and> distinct code \<and>
     list_all (\<lambda>c. c = CHR ''R'' \<or> c = CHR ''W'' \<or> c = CHR ''B'') code"

section \<open>Tables, engine and Geo Layer\<close>

text \<open>
  One record per table of \<^verbatim>\<open>self.data\<close>, a field per column the code reads. A column
  that is only interpolated into commands is a \<open>cell\<close>; a column the code computes
  with has the type the computation needs. The selectors are written qualified,
  \<open>mvtx_row.Bus1 row\<close> for \<^verbatim>\<open>row['Bus1']\<close> of a row of \<^verbatim>\<open>self.data["mvtx"]\<close>.
\<close>

record mv_net_txs_row =
  Substation_ID :: cell
  Bus1 :: cell
  Bus2 :: cell
  Connection_Primary :: cell
  Connection_Secondary :: cell
  kvs_primary :: cell
  kvs_secondary :: cell
  kvas_primary :: cell
  kvas_secondary :: cell
  loadloss :: cell
  noloadloss :: cell
  xhl :: cell

record linecodes_row =
  Linecode_ID :: cell
  Phases :: cell
  r1 :: cell
  x1 :: cell
  b1 :: cell
  r0 :: cell
  b0 :: cell
  x0 :: cell
  Units :: cell
  Ampacity1 :: rat
  Ampacity2 :: rat

record lines_row =
  Element_Name :: string
  Line_Number :: cell
  Start_Node :: cell
  Start_Node_Phase :: cell
  End_Node :: cell
  End_Node_Phase :: cell
  Phases :: int
  Length :: cell
  Units :: cell
  Linecode :: string

record mvcaps_row =
  Element_ID :: cell
  Bus1 :: cell
  phases :: cell
  kvar :: cell
  kvs :: cell

record mvtx_row =
  Substation_ID :: cell
  Bus1 :: cell
  Bus2 :: cell
  Conn_Type :: string
  kvs_primary :: rat
  kvs_secondary :: rat
  kvas_primary :: cell
  kvas_secondary :: cell
  xhl :: cell
  noloadloss :: cell
  loadloss :: cell
  wdg1_numtaps :: int

record lvtx_row =
  Substation_ID :: cell
  Bus1 :: cell
  Conn_Type :: string
  Connection_Primary :: cell
  Connection_Secondary :: cell
  kvs_primary :: cell
  kvs_secondary :: cell
  kvas_primary :: cell
  kvas_secondary :: cell
  xhl :: cell
  noloadloss :: cell
  loadloss :: cell
  wdg1_tap :: cell

record lv_lines_row =
  line_name :: cell
  bus1 :: cell
  bus2 :: cell
  phases :: int
  length' :: cell
  units :: cell
  linecode :: cell

record lv_loads_row =
  load_name :: cell
  bus1 :: cell
  phases :: int
  kv :: cell
  pf :: cell
  model :: cell
  tx_cap :: rat

text \<open>
  \<^verbatim>\<open>self.data\<close> is a dictionary from sheet names to tables; \<open>None\<close> is an absent sheet.
\<close>

record data =
  mv_net_txs :: "mv_net_txs_row list option"
  linecodes :: "linecodes_row list option"
  lines :: "lines_row list option"
  mvcaps :: "mvcaps_row list option"
  mvtx :: "mvtx_row list option"
  lvtx :: "lvtx_row list option"
  lv_lines :: "lv_lines_row list option"
  lv_loads :: "lv_loads_row list option"

text \<open>
  What the builder does to the engine: \<^verbatim>\<open>self.dss_text.Command = c\<close>,
  \<^verbatim>\<open>self.dss_circuit.SetActiveElement(n)\<close> and
  \<^verbatim>\<open>self.dss_circuit.ActiveElement.Properties(p).Val = v\<close>.
\<close>

datatype engine_call = Command fstring | SetActiveElement fstring | SetProperty string fstring

text \<open>
  The state the builder changes: the calls made to the engine, oldest first; the columns
  \<^verbatim>\<open>DSSNAME\<close> and \<^verbatim>\<open>Ampacity\<close> of \<^verbatim>\<open>self.gis_data["MV_lines"]\<close> and \<^verbatim>\<open>DSSNAME\<close> of
  \<^verbatim>\<open>self.gis_data["MVLV_txs"]\<close>, by row index; and how many numbers have been drawn from
  numpy's generator.
\<close>

record state =
  calls :: "engine_call list"
  MV_lines_DSSNAME :: "nat \<rightharpoonup> fstring"
  MV_lines_Ampacity :: "nat \<rightharpoonup> rat"
  MVLV_txs_DSSNAME :: "nat \<rightharpoonup> fstring"
  drawn :: nat

text \<open>
  A method either raises, leaving the state as it was at the raise, or returns.
\<close>

type_synonym result = "(error \<times> state) + state"

definition emit :: "fstring \<Rightarrow> state \<Rightarrow> state" where
  "emit c s = s\<lparr>calls := calls s @ [Command c]\<rparr>"

definition call :: "engine_call \<Rightarrow> state \<Rightarrow> state" where
  "call c s = s\<lparr>calls := calls s @ [c]\<rparr>"

text \<open>\<^verbatim>\<open>for index, row in element.iterrows(): body\<close>, stopping at the first raise.\<close>

fun for_rows :: "('a \<Rightarrow> state \<Rightarrow> result) \<Rightarrow> 'a list \<Rightarrow> state \<Rightarrow> result" where
  "for_rows body [] s = Inr s"
| "for_rows body (x # xs) s =
     (case body x s of Inl es \<Rightarrow> Inl es | Inr s' \<Rightarrow> for_rows body xs s')"

text \<open>\<^verbatim>\<open>element.iterrows()\<close> of a table with the default index.\<close>

definition iterrows :: "'a list \<Rightarrow> (nat \<times> 'a) list" where
  "iterrows element = zip [0..<length element] element"

text \<open>\<^verbatim>\<open>self.data[name]\<close> followed by the loop over its rows.\<close>

definition for_table :: "'a list option \<Rightarrow> (nat \<times> 'a \<Rightarrow> state \<Rightarrow> result) \<Rightarrow> state \<Rightarrow> result" where
  "for_table table body s =
     (case table of
        None \<Rightarrow> Inl (KeyError, s)
      | Some element \<Rightarrow> for_rows body (iterrows element) s)"

section \<open>The stages before the transformers\<close>

definition basic_opendss_actions :: "state \<Rightarrow> result" where
  "basic_opendss_actions s =
     Inr (emit [Lit ''Set DefaultBaseFrequency = 50''] (emit [Lit ''clear''] s))"

definition voltage_source :: "state \<Rightarrow> result" where
  "voltage_source s =
     Inr (emit [Lit ''edit vsource.source bus1=sourcebus basekv=66 pu=1 angle=0 phases=3 R1=0.52824 X1=2.113 R0=0.59157 X0=1.7'']
         (emit [Lit ''New circuit.circuit basekv=66 pu=1 angle=0 phases=3 R1=0.52824 X1=2.113 R0=0.59157 X0=1.7747''] s))"

definition mv_tx_data :: "mv_net_txs_row \<Rightarrow> fstring" where
  "mv_tx_data row =
     [Lit ''New Transformer.'', Val (mv_net_txs_row.Substation_ID row), Lit '' '',
      Lit ''phases=3 '',
      Lit ''windings=2 '',
      Lit ''buses=['', Val (mv_net_txs_row.Bus1 row), Lit '', mv_f0_n'', Val (mv_net_txs_row.Bus2 row), Lit ''] '',
      Lit ''conns=['', Val (mv_net_txs_row.Connection_Primary row), Lit '', '',
        Val (mv_net_txs_row.Connection_Secondary row), Lit ''] '',
      Lit ''kVs=['', Val (mv_net_txs_row.kvs_primary row), Lit '', '',
        Val (mv_net_txs_row.kvs_secondary row), Lit ''] '',
      Lit ''kVAs=['', Val (mv_net_txs_row.kvas_primary row), Lit '', '',
        Val (mv_net_txs_row.kvas_secondary row), Lit ''] '',
      Lit ''%loadloss='', Val (mv_net_txs_row.loadloss row), Lit '' '',
      Lit ''%noloadloss='', Val (mv_net_txs_row.noloadloss row), Lit '' '',
      Lit ''xhl='', Val (mv_net_txs_row.xhl row), Lit '' '',
      Lit ''enabled=true'']"

definition mv_net_tx :: "data \<Rightarrow> state \<Rightarrow> result" where
  "mv_net_tx d = for_table (mv_net_txs d) (\<lambda>(index, row) s. Inr (emit (mv_tx_data row) s))"

subsection \<open>\<^verbatim>\<open>line_codes\<close>\<close>

definition linecode_data :: "linecodes_row \<Rightarrow> fstring" where
  "linecode_data row =
     [Lit ''new linecode.lc_'', Val (linecodes_row.Linecode_ID row), Lit '' '',
      Lit ''nphases='', Val (linecodes_row.Phases row), Lit '' '',
      Lit ''r1='', Val (r1 row), Lit '' '',
      Lit ''x1='', Val (x1 row), Lit '' '',
      Lit ''b1='', Val (b1 row), Lit '' '',
      Lit ''r0='', Val (r0 row), Lit '' '',
      Lit ''b0='', Val (b0 row), Lit '' '',
      Lit ''x0='', Val (x0 row), Lit '' '',
      Lit ''units='', Val (linecodes_row.Units row), Lit '' '',
      Lit ''normamp='', Val (PyFloat (min (Ampacity1 row) (Ampacity2 row))), Lit '' '']"

definition line_codes :: "data \<Rightarrow> state \<Rightarrow> result" where
  "line_codes d = for_table (linecodes d) (\<lambda>(index, row) s. Inr (emit (linecode_data row) s))"

subsection \<open>\<^verbatim>\<open>connections\<close>\<close>

text \<open>
  \<^verbatim>\<open>str.lower\<close> on the letters A to Z; every other character of a HOL string stays. (On
  characters outside ASCII Python's \<^verbatim>\<open>lower\<close> never produces a letter of "delete".)
\<close>

definition lower_char :: "char \<Rightarrow> char" where
  "lower_char c =
     (case map_of (zip ''ABCDEFGHIJKLMNOPQRSTUVWXYZ'' ''abcdefghijklmnopqrstuvwxyz'') c of
        None \<Rightarrow> c
      | Some l \<Rightarrow> l)"

definition lower :: "string \<Rightarrow> string" where
  "lower s = map lower_char s"

definition mv_line_data :: "lines_row \<Rightarrow> fstring" where
  "mv_line_data row =
     [Lit ''new line.mv_f0_l'', Val (Line_Number row), Lit '' '',
      Lit ''bus1=mv_f0_n'', Val (Start_Node row), Lit ''.'', Val (Start_Node_Phase row), Lit '' '',
      Lit ''bus2=mv_f0_n'', Val (End_Node row), Lit ''.'', Val (End_Node_Phase row), Lit '' '',
      Lit ''phases='', Val (PyInt (lines_row.Phases row)), Lit '' '',
      Lit ''length='', Val (Length row), Lit '' '',
      Lit ''units='', Val (lines_row.Units row), Lit '' '',
      Lit ''linecode=lc_'', Val (PyStr (Linecode row)), Lit ''-'', Val (PyInt (lines_row.Phases row)), Lit ''ph '',
      Lit ''enabled=true'']"

text \<open>The key \<^verbatim>\<open>f"{row['Linecode']}-{row['Phases']}ph"\<close>, as text.\<close>

definition linecode_key :: "lines_row \<Rightarrow> string" where
  "linecode_key row = Linecode row @ ''-'' @ str_int (lines_row.Phases row) @ ''ph''"

text \<open>
  \<^verbatim>\<open>linecodes.loc[linecodes["Linecode_ID"] == key, "Ampacity1"].values[0]\<close>: the
  \<^verbatim>\<open>Ampacity1\<close> of the first row with that identifier, \<^verbatim>\<open>IndexError\<close> when there is none.
\<close>

definition matching_linecodes :: "linecodes_row list \<Rightarrow> string \<Rightarrow> linecodes_row list" where
  "matching_linecodes element key = filter (\<lambda>lc. linecodes_row.Linecode_ID lc = PyStr key) element"

definition first_value :: "'a list \<Rightarrow> error + 'a" where
  "first_value vals = (case vals of [] \<Rightarrow> Inl IndexError | v # _ \<Rightarrow> Inr v)"

definition connections_row :: "data \<Rightarrow> nat \<times> lines_row \<Rightarrow> state \<Rightarrow> result" where
  "connections_row d = (\<lambda>(index, row) s.
     if lower (Element_Name row) \<noteq> ''delete'' then
       let s1 = emit (mv_line_data row) s;
           s2 = s1\<lparr>MV_lines_DSSNAME := (MV_lines_DSSNAME s1)(index \<mapsto> [Lit ''mv_f0_l'', Val (Line_Number row)])\<rparr>
       in (case linecodes d of
             None \<Rightarrow> Inl (KeyError, s2)
           | Some element \<Rightarrow>
               (case first_value (map Ampacity1 (matching_linecodes element (linecode_key row))) of
                  Inl e \<Rightarrow> Inl (e, s2)
                | Inr amp \<Rightarrow> Inr (s2\<lparr>MV_lines_Ampacity := (MV_lines_Ampacity s2)(index \<mapsto> amp)\<rparr>)))
     else Inr s)"

definition connections :: "data \<Rightarrow> state \<Rightarrow> result" where
  "connections d = for_table (lines d) (connections_row d)"

subsection \<open>\<^verbatim>\<open>capacitors\<close>\<close>

definition mv_caps_data :: "mvcaps_row \<Rightarrow> fstring" where
  "mv_caps_data row =
     [Lit ''new capacitor.mv_f0_l'', Val (Element_ID row), Lit '' '',
      Lit ''bus1=mv_f0_n'', Val (mvcaps_row.Bus1 row), Lit ''.1.2.3 '',
      Lit ''phases='', Val (mvcaps_row.phases row), Lit '' '',
      Lit ''kvar='', Val (kvar row), Lit '' '',
      Lit ''kV='', Val (kvs row)]"

definition capacitors :: "data \<Rightarrow> state \<Rightarrow> result" where
  "capacitors d = for_table (mvcaps d) (\<lambda>(index, row) s. Inr (emit (mv_caps_data row) s))"

section \<open>The transformer stages\<close>

subsection \<open>Double-precision arithmetic and \<^verbatim>\<open>np.round(x, decimals)\<close>\<close>

text \<open>Rounding to the nearest integer, a tie going to the even one.\<close>

definition rint :: "rat \<Rightarrow> int" where
  "rint x =
     (let f = \<lfloor>x\<rfloor>; d = x - of_int f in
      if d < 1 / 2 then f else if 1 / 2 < d then f + 1 else if even f then f else f + 1)"

definition pow2 :: "int \<Rightarrow> rat" where
  "pow2 k = (if 0 \<le> k then 2 ^ nat k else 1 / 2 ^ nat (- k))"

text \<open>The integer \<open>k\<close> with \<open>2 ^ k \<le> x < 2 ^ (k + 1)\<close>, for a positive \<open>x\<close>.\<close>

definition ilog2 :: "rat \<Rightarrow> int" where
  "ilog2 x =
     (let (p, q) = quotient_of x; k = bitlen p - bitlen q
      in if pow2 k \<le> x then k else k - 1)"

text \<open>
  The IEEE 754 double nearest to \<open>x\<close>, ties to even: 53 significant bits, and steps of
  \<open>2 ^ - 1074\<close> in the subnormal range. The result is finite as long as it is below
  \<open>2 ^ 1024\<close> in magnitude; the code that uses \<open>fl\<close> says where that can fail.
\<close>

definition fl :: "rat \<Rightarrow> rat" where
  "fl x =
     (if x = 0 then 0
      else (let e = max (ilog2 \<bar>x\<bar> - 52) (- 1074)
            in of_int (rint (x / pow2 e)) * pow2 e))"

text \<open>
  \<^verbatim>\<open>np.round(x, decimals)\<close> for \<open>decimals \<ge> 0\<close> multiplies by \<open>10 ^ decimals\<close>, rounds to
  the nearest integer and divides again, each step in double precision. The product is
  the one step that can overflow: it does when its magnitude reaches \<open>2 ^ 1024\<close>, that is
  when its binary exponent is 1024 or more, and the result is then infinite.
\<close>

definition np_round :: "rat \<Rightarrow> nat \<Rightarrow> cell" where
  "np_round x decimals =
     (let scaled = fl (x * 10 ^ decimals)
      in if scaled \<noteq> 0 \<and> 1024 \<le> ilog2 \<bar>scaled\<bar> then PyInf (scaled < 0)
         else PyFloat (fl (of_int (rint scaled) / 10 ^ decimals)))"

subsection \<open>\<^verbatim>\<open>mv_txs\<close>\<close>

text \<open>The command of the branch \<^verbatim>\<open>kva1 != kva2\<close>; \<open>suffix\<close> is \<^verbatim>\<open>char_to_num[row['Conn_Type']]\<close>.\<close>

definition mv_tx :: "string \<Rightarrow> mvtx_row \<Rightarrow> fstring" where
  "mv_tx suffix row =
     [Lit ''new transformer.'', Val (mvtx_row.Substation_ID row), Lit '' '',
      Lit ''buses=[mv_f0_n'', Val (mvtx_row.Bus1 row), Lit ''.'', Val (PyStr suffix),
        Lit '' mv_f0_n'', Val (mvtx_row.Bus2 row), Lit ''.1.0 mv_f0_n'', Val (mvtx_row.Bus2 row), Lit ''.0.2] '',
      Lit ''phases=1 '',
      Lit ''windings=3 '',
      Lit ''conns=[Delta Wye Wye] '',
      Lit ''kVs=['', Val (PyFloat (mvtx_row.kvs_primary row)), Lit '' '',
        Val (PyFloat (mvtx_row.kvs_secondary row)), Lit '' '',
        Val (PyFloat (mvtx_row.kvs_secondary row)), Lit ''] '',
      Lit ''kVAs=['', Val (mvtx_row.kvas_primary row), Lit '' '',
        Val (mvtx_row.kvas_secondary row), Lit '' '', Val (mvtx_row.kvas_secondary row), Lit ''] '',
      Lit ''xhl='', Val (mvtx_row.xhl row), Lit '' '',
      Lit ''%noloadloss='', Val (mvtx_row.noloadloss row), Lit '' '',
      Lit ''%loadloss='', Val (mvtx_row.loadloss row)]"

text \<open>The six reactors of the branch \<^verbatim>\<open>else\<close>, as the source writes them out.\<close>

definition jumpers :: "mvtx_row \<Rightarrow> fstring list" where
  "jumpers row =
     [[Lit ''New Reactor.Jumper_'', Val (mvtx_row.Substation_ID row),
       Lit ''_A_E phases=1 bus1=mv_f0_n'', Val (mvtx_row.Bus1 row),
       Lit ''.1 bus2=Jumper_'', Val (mvtx_row.Substation_ID row), Lit ''_A.2 X=0.0001 R=0.0001''],
      [Lit ''New Reactor.Jumper_'', Val (mvtx_row.Substation_ID row),
       Lit ''_A_O phases=1  bus1=Jumper_'', Val (mvtx_row.Substation_ID row),
       Lit ''_A.1 bus2=mv_f0_n'', Val (mvtx_row.Bus2 row), Lit ''.1 X=0.0001 R=0.0001''],
      [Lit ''New Reactor.Jumper_'', Val (mvtx_row.Substation_ID row),
       Lit ''_B_E phases=1 bus1=mv_f0_n'', Val (mvtx_row.Bus1 row),
       Lit ''.2 bus2=Jumper_'', Val (mvtx_row.Substation_ID row), Lit ''_B.2 X=0.0001 R=0.0001''],
      [Lit ''New Reactor.Jumper_'', Val (mvtx_row.Substation_ID row),
       Lit ''_B_O phases=1  bus1=Jumper_'', Val (mvtx_row.Substation_ID row),
       Lit ''_B.1 bus2=mv_f0_n'', Val (mvtx_row.Bus2 row), Lit ''.2 X=0.0001 R=0.0001''],
      [Lit ''New Reactor.Jumper_'', Val (mvtx_row.Substation_ID row),
       Lit ''_C_E phases=1 bus1=mv_f0_n'', Val (mvtx_row.Bus1 row),
       Lit ''.3 bus2=Jumper_'', Val (mvtx_row.Substation_ID row), Lit ''_C.2 X=0.0001 R=0.0001''],
      [Lit ''New Reactor.Jumper_'', Val (mvtx_row.Substation_ID row),
       Lit ''_C_O phases=1  bus1=Jumper_'', Val (mvtx_row.Substation_ID row),
       Lit ''_C.1 bus2=mv_f0_n'', Val (mvtx_row.Bus2 row), Lit ''.3 X=0.0001 R=0.0001'']]"

text \<open>The transformer of one phase of the regulator; \<open>kVAtraf\<close> is interpolated twice.\<close>

definition regulator_tx :: "rat \<Rightarrow> cell \<Rightarrow> mvtx_row \<Rightarrow> string \<Rightarrow> fstring" where
  "regulator_tx kv_const kVAtraf row phase =
     [Lit ''new transformer.'', Val (mvtx_row.Substation_ID row), Lit ''_'', Val (PyStr phase), Lit '' '',
      Lit ''phases=1 '',
      Lit ''windings=2 '',
      Lit ''xhl='', Val (mvtx_row.xhl row), Lit '' '',
      Lit ''%noloadloss='', Val (mvtx_row.noloadloss row), Lit '' '',
      Lit ''%loadloss='', Val (mvtx_row.loadloss row), Lit '' '',
      Lit ''wdg=1 '',
      Lit ''Bus=Jumper_'', Val (mvtx_row.Substation_ID row), Lit ''_'', Val (PyStr phase), Lit ''.1.0 '',
      Lit ''kV='', Val (PyFloat kv_const), Lit '' '',
      Lit ''kVA='', Val kVAtraf, Lit '' '',
      Lit ''wdg=2 '',
      Lit ''Bus=Jumper_'', Val (mvtx_row.Substation_ID row), Lit ''_'', Val (PyStr phase), Lit ''.1.2 '',
      Lit ''kV='', Val (PyFloat (fl (kv_const / 10))), Lit '' '',
      Lit ''kVA='', Val kVAtraf, Lit '' '',
      Lit ''Maxtap=1.0 '',
      Lit ''Mintap=-1.0 '',
      Lit ''tap=0.0 '',
      Lit ''numtaps='', Val (PyInt (wdg1_numtaps row - 1))]"

definition reg_control :: "rat \<Rightarrow> mvtx_row \<Rightarrow> string \<Rightarrow> fstring" where
  "reg_control kv_const row phase =
     [Lit '' new regcontrol.Reg_'', Val (mvtx_row.Substation_ID row), Lit ''_'', Val (PyStr phase), Lit '' '',
      Lit ''transformer='', Val (mvtx_row.Substation_ID row), Lit ''_'', Val (PyStr phase), Lit '' '',
      Lit ''winding=2 '',
      Lit ''bus=Jumper_'', Val (mvtx_row.Substation_ID row), Lit ''_'', Val (PyStr phase), Lit ''.1 '',
      Lit ''vreg=100.0 '',
      Lit ''band=3.0 '',
      Lit ''ptratio='', Val (PyFloat (fl (kv_const * 10))), Lit '' '',
      Lit ''maxtapchange=1'']"

text \<open>
  The commands one row of \<^verbatim>\<open>self.data["mvtx"]\<close> sends, in order, or the error raised
  before the first of them. The source names the two rated voltages \<^verbatim>\<open>kva1\<close> and
  \<^verbatim>\<open>kva2\<close>: \<^verbatim>\<open>kva1 = row["kvs_primary"]\<close>, \<^verbatim>\<open>kva2 = row["kvs_secondary"]\<close>. In
  \<^verbatim>\<open>kv = 12.7\<close>, \<^verbatim>\<open>nt = 10/100\<close> and
  \<^verbatim>\<open>kVAtraf = str(np.round((nt * float(kva1) / (1 + nt)),2))\<close> every operation is one in
  double precision; \<^verbatim>\<open>str\<close> is not modelled.
\<close>

definition mv_txs_commands :: "(string \<rightharpoonup> string) \<Rightarrow> mvtx_row \<Rightarrow> error + fstring list" where
  "mv_txs_commands tbl row =
     (let kva1 = mvtx_row.kvs_primary row;
          kva2 = mvtx_row.kvs_secondary row
      in if kva1 \<noteq> kva2 then
           (case subscript tbl (mvtx_row.Conn_Type row) of
              Inl e \<Rightarrow> Inl e
            | Inr suffix \<Rightarrow> Inr [mv_tx suffix row])
         else
           (let kv_const = fl (127 / 10);
                nt = fl (10 / 100);
                kVAtraf = np_round (fl (fl (nt * fl kva1) / fl (1 + nt))) 2
            in Inr ([[Lit ''set maxcontroliter=100'']]
                    @ jumpers row
                    @ map (regulator_tx kv_const kVAtraf row) [''A'', ''B'', ''C'']
                    @ map (reg_control kv_const row) [''A'', ''B'', ''C''])))"

definition emit_all :: "fstring list \<Rightarrow> state \<Rightarrow> state" where
  "emit_all cs s = s\<lparr>calls := calls s @ map Command cs\<rparr>"

definition mv_txs_row :: "(string \<rightharpoonup> string) \<Rightarrow> nat \<times> mvtx_row \<Rightarrow> state \<Rightarrow> result" where
  "mv_txs_row tbl = (\<lambda>(index, row) s.
     case mv_txs_commands tbl row of
       Inl e \<Rightarrow> Inl (e, s)
     | Inr cs \<Rightarrow> Inr (emit_all cs s))"

definition mv_txs :: "data \<Rightarrow> state \<Rightarrow> result" where
  "mv_txs d s =
     (case char_to_num of
        Inl e \<Rightarrow> Inl (e, s)
      | Inr tbl \<Rightarrow> for_table (mvtx d) (mv_txs_row tbl) s)"

text \<open>What \<^verbatim>\<open>mv_txs\<close> sends for one row, with the table it builds at its start.\<close>

definition mv_txs_record :: "mvtx_row \<Rightarrow> error + fstring list" where
  "mv_txs_record row =
     (case char_to_num of Inl e \<Rightarrow> Inl e | Inr tbl \<Rightarrow> mv_txs_commands tbl row)"

subsection \<open>\<^verbatim>\<open>lv_tx\<close>\<close>

text \<open>The tail every branch of \<^verbatim>\<open>lv_tx\<close> ends with.\<close>

definition lv_tx_tail :: "lvtx_row \<Rightarrow> fstring" where
  "lv_tx_tail row =
     [Lit ''xhl='', Val (lvtx_row.xhl row), Lit '' '',
      Lit ''%noloadloss='', Val (lvtx_row.noloadloss row), Lit '' '',
      Lit ''%loadloss='', Val (lvtx_row.loadloss row), Lit '' '',
      Lit ''wdg=1 '',
      Lit ''numtaps=4 '',
      Lit ''tap='', Val (wdg1_tap row), Lit '' '',
      Lit ''maxtap=1.137 '',
      Lit ''mintap=1.028'']"

definition lv_tx_data :: "(string \<rightharpoonup> string) \<Rightarrow> nat \<Rightarrow> lvtx_row \<Rightarrow> error + fstring" where
  "lv_tx_data tbl index row =
     (if length (lvtx_row.Conn_Type row) = 3 then
        Inr ([Lit ''new transformer.mv_f0_lv_'', Val (lvtx_row.Substation_ID row), Lit '' '',
              Lit ''phases=3 '',
              Lit ''windings=2 '',
              Lit ''buses=[mv_f0_n'', Val (lvtx_row.Bus1 row), Lit '' mv_f0_lv'', Val (PyInt (int index)), Lit ''_busbar] '',
              Lit ''conns=['', Val (lvtx_row.Connection_Primary row), Lit '' '',
                Val (lvtx_row.Connection_Secondary row), Lit ''] '',
              Lit ''kVs=['', Val (lvtx_row.kvs_primary row), Lit '' '', Val (lvtx_row.kvs_secondary row), Lit ''] '',
              Lit ''kVAs=['', Val (lvtx_row.kvas_primary row), Lit '' '', Val (lvtx_row.kvas_secondary row), Lit ''] '']
             @ lv_tx_tail row)
      else if length (lvtx_row.Conn_Type row) = 2 then
        (case subscript tbl (lvtx_row.Conn_Type row) of
           Inl e \<Rightarrow> Inl e
         | Inr suffix \<Rightarrow>
             Inr ([Lit ''new transformer.mv_f0_lv_'', Val (lvtx_row.Substation_ID row), Lit '' '',
                   Lit ''phases=1 '',
                   Lit ''windings=3 '',
                   Lit ''buses=[mv_f0_n'', Val (lvtx_row.Bus1 row), Lit ''.'', Val (PyStr suffix),
                     Lit '' mv_f0_lv'', Val (PyInt (int index)), Lit ''_busbar.1.0 mv_f0_lv'',
                     Val (PyInt (int index)), Lit ''_busbar.0.2] '',
                   Lit ''conns=[Delta Wye Wye] '',
                   Lit ''kVs=[22 0.25 0.25] '',
                   Lit ''kVAs=['', Val (lvtx_row.kvas_primary row), Lit '' '',
                     Val (lvtx_row.kvas_secondary row), Lit '' '', Val (lvtx_row.kvas_secondary row), Lit ''] '']
                  @ lv_tx_tail row))
      else
        (case subscript tbl (lvtx_row.Conn_Type row) of
           Inl e \<Rightarrow> Inl e
         | Inr suffix \<Rightarrow>
             Inr ([Lit ''new transformer.mv_f0_lv_'', Val (lvtx_row.Substation_ID row), Lit '' '',
                   Lit ''phases=1 '',
                   Lit ''windings=2 '',
                   Lit ''buses=[mv_f0_n'', Val (lvtx_row.Bus1 row), Lit ''.'', Val (PyStr suffix),
                     Lit '' mv_f0_lv'', Val (PyInt (int index)), Lit ''_busbar.1] '',
                   Lit ''conns=[Wye Wye] '',
                   Lit ''kVs=['', Val (lvtx_row.kvs_primary row), Lit '' '', Val (lvtx_row.kvs_secondary row), Lit ''] '',
                   Lit ''kVAs=['', Val (lvtx_row.kvas_primary row), Lit '' '', Val (lvtx_row.kvas_secondary row), Lit ''] '']
                  @ lv_tx_tail row)))"

definition lv_tx_row :: "(string \<rightharpoonup> string) \<Rightarrow> nat \<times> lvtx_row \<Rightarrow> state \<Rightarrow> result" where
  "lv_tx_row tbl = (\<lambda>(index, row) s.
     case lv_tx_data tbl index row of
       Inl e \<Rightarrow> Inl (e, s)
     | Inr c \<Rightarrow>
         (let s1 = emit c s
          in Inr (s1\<lparr>MVLV_txs_DSSNAME :=
                      (MVLV_txs_DSSNAME s1)(index \<mapsto> [Lit ''mv_f0_lv_'', Val (lvtx_row.Substation_ID row)])\<rparr>)))"

definition lv_tx :: "data \<Rightarrow> state \<Rightarrow> result" where
  "lv_tx d s =
     (case char_to_num of
        Inl e \<Rightarrow> Inl (e, s)
      | Inr tbl \<Rightarrow> for_table (lvtx d) (lv_tx_row tbl) s)"

text \<open>What \<^verbatim>\<open>lv_tx\<close> sends for the row at \<open>index\<close>, with the table it builds at its start.\<close>

definition lv_tx_record :: "nat \<Rightarrow> lvtx_row \<Rightarrow> error + fstring" where
  "lv_tx_record index row =
     (case char_to_num of Inl e \<Rightarrow> Inl e | Inr tbl \<Rightarrow> lv_tx_data tbl index row)"

section \<open>The low-voltage lines and loads\<close>

definition line_data :: "lv_lines_row \<Rightarrow> fstring" where
  "line_data row =
     (let bus_conn = (if lv_lines_row.phases row = 3 then ''.1.2.3'' else ''.1'')
      in [Lit ''new line.'', Val (line_name row), Lit '' '',
          Lit ''bus1='', Val (lv_lines_row.bus1 row), Val (PyStr bus_conn), Lit '' '',
          Lit ''bus2='', Val (bus2 row), Val (PyStr bus_conn), Lit '' '',
          Lit ''phases='', Val (PyInt (lv_lines_row.phases row)), Lit '' '',
          Lit ''length='', Val (length' row), Lit '' '',
          Lit ''units='', Val (units row), Lit '' '',
          Lit ''linecode='', Val (linecode row), Lit '' ''])"

definition lv_nets :: "data \<Rightarrow> state \<Rightarrow> result" where
  "lv_nets d = for_table (lv_lines d) (\<lambda>(index, row) s. Inr (emit (line_data row) s))"

subsection \<open>Random draws and the profile arrays\<close>

text \<open>
  numpy's generator is a parameter: \<open>draws k\<close> is the raw number behind the \<open>k\<close>-th
  draw since the generator was seeded, and \<^verbatim>\<open>np.random.randint(high)\<close> reduces it to
  \<open>0 \<le> i < high\<close>; \<^verbatim>\<open>randint\<close> raises \<^verbatim>\<open>ValueError\<close> when \<open>high\<close> is 0. Every sequence
  of results the real generator can give is the image of some \<open>draws\<close>.
\<close>

definition seed :: "state \<Rightarrow> state" where
  "seed s = s\<lparr>drawn := 0\<rparr>"

definition randint :: "(nat \<Rightarrow> nat) \<Rightarrow> nat \<Rightarrow> state \<Rightarrow> (error \<times> state) + (nat \<times> state)" where
  "randint draws high s =
     (if high = 0 then Inl (ValueError, s)
      else Inr (draws (drawn s) mod high, s\<lparr>drawn := Suc (drawn s)\<rparr>))"

text \<open>
  \<^verbatim>\<open>house_data\<close> and \<^verbatim>\<open>com_data\<close> are arrays indexed by profile, day and half hour.
  \<^verbatim>\<open>arr[i, selected_day, :]\<close> raises \<^verbatim>\<open>IndexError\<close> out of range.
\<close>

type_synonym profiles = "rat list list list"

definition day_profile :: "profiles \<Rightarrow> nat \<Rightarrow> nat \<Rightarrow> error + rat list" where
  "day_profile arr i selected_day =
     (if i < length arr \<and> selected_day < length (arr ! i) then Inr (arr ! i ! selected_day)
      else Inl IndexError)"

text \<open>\<^verbatim>\<open>np.max\<close> raises \<^verbatim>\<open>ValueError\<close> on an empty array.\<close>

definition np_max :: "rat list \<Rightarrow> error + rat" where
  "np_max xs = (case xs of [] \<Rightarrow> Inl ValueError | x # ys \<Rightarrow> Inr (fold max ys x))"

subsection \<open>\<^verbatim>\<open>lv_load_mod\<close>\<close>

definition time_res :: int where
  "time_res = 30"

definition load_data :: "lv_loads_row \<Rightarrow> fstring" where
  "load_data row =
     [Lit ''new load.'', Val (load_name row), Lit '' '',
      Lit ''phases='', Val (PyInt (lv_loads_row.phases row)), Lit '' '',
      Lit ''bus1='', Val (lv_loads_row.bus1 row), Lit '' '',
      Lit ''kw=1 '',
      Lit ''conn=wye '',
      Lit ''kv='', Val (kv row), Lit '' '',
      Lit ''pf='', Val (pf row), Lit '' '',
      Lit ''model=1 '',
      Lit ''vminpu=0.0 vmaxpu=2 '',
      Lit ''status='', Val (model row), Lit '' '',
      Lit ''enabled=True'']"

text \<open>
  The load shape of a profile; \<open>kind\<close> is \<^verbatim>\<open>res\<close> or \<^verbatim>\<open>com\<close>.
\<close>

definition load_shape :: "string \<Rightarrow> nat \<Rightarrow> rat list \<Rightarrow> fstring" where
  "load_shape kind index load_profile =
     [Lit (''New Loadshape.Load_shape_'' @ kind @ ''_''), Val (PyInt (int index)), Lit '' '',
      Lit ''npts='', Val (PyInt \<lfloor>fl ((24 * 60) / of_int time_res)\<rfloor>), Lit '' '',
      Lit ''minterval='', Val (PyInt time_res), Lit '' '',
      Lit ''Pmult='', Val (PyList load_profile), Lit '' '',
      Lit ''useactual=no'']"

text \<open>Associating the profile \<^verbatim>\<open>Load_shape_<kind>_<index>\<close> to the customer.\<close>

definition associate :: "string \<Rightarrow> nat \<Rightarrow> lv_loads_row \<Rightarrow> state \<Rightarrow> state" where
  "associate kind index row s =
     call (SetProperty ''daily'' [Lit (''Load_shape_'' @ kind @ ''_''), Val (PyInt (int index))])
       (call (SetActiveElement [Lit ''load.'', Val (load_name row)]) s)"

text \<open>
  The loop \<^verbatim>\<open>while True\<close> of a load that is not single-phase: draw a profile, leave the
  loop when its maximum is below \<^verbatim>\<open>row['tx_cap']/2\<close> (a division in double precision,
  \<open>cap\<close> being \<^verbatim>\<open>row['tx_cap']\<close>), draw again otherwise. The loop has no bound, so the
  result is an option and \<open>None\<close> is a loop that never ends.
\<close>

partial_function (option) sample_com ::
  "(nat \<Rightarrow> nat) \<Rightarrow> profiles \<Rightarrow> nat \<Rightarrow> rat \<Rightarrow> state \<Rightarrow> ((error \<times> state) + (rat list \<times> state)) option" where
  "sample_com draws com_data selected_day cap s =
     (case randint draws (length com_data) s of
        Inl es \<Rightarrow> Some (Inl es)
      | Inr (i, s') \<Rightarrow>
          (case day_profile com_data i selected_day of
             Inl e \<Rightarrow> Some (Inl (e, s'))
           | Inr load_profile_com \<Rightarrow>
               (case np_max load_profile_com of
                  Inl e \<Rightarrow> Some (Inl (e, s'))
                | Inr load_max \<Rightarrow>
                    if load_max < fl (cap / 2) then Some (Inr (load_profile_com, s'))
                    else sample_com draws com_data selected_day cap s')))"

definition lv_load_row ::
  "(nat \<Rightarrow> nat) \<Rightarrow> profiles \<Rightarrow> profiles \<Rightarrow> nat \<Rightarrow> nat \<times> lv_loads_row \<Rightarrow> state \<Rightarrow> result option" where
  "lv_load_row draws house_data com_data selected_day = (\<lambda>(index, row) s.
     if lv_loads_row.phases row = 1 then
       (let s1 = emit (load_data row) s
        in case randint draws (length house_data) s1 of
             Inl es \<Rightarrow> Some (Inl es)
           | Inr (i, s2) \<Rightarrow>
               (case day_profile house_data i selected_day of
                  Inl e \<Rightarrow> Some (Inl (e, s2))
                | Inr load_profile_res \<Rightarrow>
                    Some (Inr (associate ''res'' index row
                                 (emit (load_shape ''res'' index load_profile_res) s2)))))
     else
       (let s1 = emit (load_data row) s
        in case sample_com draws com_data selected_day (tx_cap row) s1 of
             None \<Rightarrow> None
           | Some (Inl es) \<Rightarrow> Some (Inl es)
           | Some (Inr (load_profile_com, s2)) \<Rightarrow>
               Some (Inr (associate ''com'' index row
                            (emit (load_shape ''com'' index load_profile_com) s2)))))"

text \<open>The loop over the rows when the body may not come back.\<close>

fun for_rows_opt :: "('a \<Rightarrow> state \<Rightarrow> result option) \<Rightarrow> 'a list \<Rightarrow> state \<Rightarrow> result option" where
  "for_rows_opt body [] s = Some (Inr s)"
| "for_rows_opt body (x # xs) s =
     (case body x s of
        None \<Rightarrow> None
      | Some (Inl es) \<Rightarrow> Some (Inl es)
      | Some (Inr s') \<Rightarrow> for_rows_opt body xs s')"

text \<open>
  \<^verbatim>\<open>lv_load_mod(self, selected_day=0)\<close> returns the day it used. With the default 0 it
  seeds the generator and draws the day from \<^verbatim>\<open>randint(0, 365)\<close>.
\<close>

definition lv_load_mod ::
  "(nat \<Rightarrow> nat) \<Rightarrow> profiles \<Rightarrow> profiles \<Rightarrow> data \<Rightarrow> nat \<Rightarrow> state
     \<Rightarrow> ((error \<times> state) + (nat \<times> state)) option" where
  "lv_load_mod draws house_data com_data d selected_day s =
     (case (if selected_day = 0 then randint draws 365 (seed s) else Inr (selected_day, s)) of
        Inl es \<Rightarrow> Some (Inl es)
      | Inr (day, s0) \<Rightarrow>
          (case lv_loads d of
             None \<Rightarrow> Some (Inl (KeyError, s0))
           | Some element \<Rightarrow>
               (case for_rows_opt (lv_load_row draws house_data com_data day) (iterrows element) s0 of
                  None \<Rightarrow> None
                | Some (Inl es) \<Rightarrow> Some (Inl es)
                | Some (Inr s') \<Rightarrow> Some (Inr (day, s')))))"

section \<open>The orchestrator \<^verbatim>\<open>build_network\<close>\<close>

text \<open>
  \<^verbatim>\<open>def print_selected_date(self, selected_day)\<close> only prints. Its parameter has no
  default, so a call that passes no day raises \<^verbatim>\<open>TypeError\<close> before the body runs;
  \<open>None\<close> is the call \<^verbatim>\<open>self.print_selected_date()\<close>.
\<close>

definition print_selected_date :: "nat option \<Rightarrow> state \<Rightarrow> result" where
  "print_selected_date selected_day s =
     (case selected_day of None \<Rightarrow> Inl (TypeError, s) | Some day \<Rightarrow> Inr s)"

definition other_opendss_commands :: "state \<Rightarrow> result" where
  "other_opendss_commands s =
     Inr (emit [Lit ''calcv'']
         (emit [Lit ''Set VoltageBases=[66.0, 22.0, 12.7 0.400, 0.2309]''] s))"

text \<open>\<^verbatim>\<open>try: stage() except: pass\<close> keeps what the stage did before it raised.\<close>

definition try_except_pass :: "(state \<Rightarrow> result) \<Rightarrow> state \<Rightarrow> result" where
  "try_except_pass stage s = (case stage s of Inl (e, s') \<Rightarrow> Inr s' | Inr s' \<Rightarrow> Inr s')"

text \<open>A stage without an unbounded loop always comes back.\<close>

definition returns :: "(state \<Rightarrow> result) \<Rightarrow> state \<Rightarrow> result option" where
  "returns stage s = Some (stage s)"

text \<open>The statement \<^verbatim>\<open>self.lv_load_mod()\<close>: the default day, the returned day dropped.\<close>

definition lv_load_mod_stmt ::
  "(nat \<Rightarrow> nat) \<Rightarrow> profiles \<Rightarrow> profiles \<Rightarrow> data \<Rightarrow> state \<Rightarrow> result option" where
  "lv_load_mod_stmt draws house_data com_data d s =
     (case lv_load_mod draws house_data com_data d 0 s of
        None \<Rightarrow> None
      | Some (Inl es) \<Rightarrow> Some (Inl es)
      | Some (Inr (day, s')) \<Rightarrow> Some (Inr s'))"

text \<open>Statements in sequence: the first raise, or the first loop without end, stops the rest.\<close>

fun run_stages :: "(state \<Rightarrow> result option) list \<Rightarrow> state \<Rightarrow> result option" where
  "run_stages [] s = Some (Inr s)"
| "run_stages (stage # stages) s =
     (case stage s of
        None \<Rightarrow> None
      | Some (Inl es) \<Rightarrow> Some (Inl es)
      | Some (Inr s') \<Rightarrow> run_stages stages s')"

definition build_network ::
  "(nat \<Rightarrow> nat) \<Rightarrow> profiles \<Rightarrow> profiles \<Rightarrow> data \<Rightarrow> state \<Rightarrow> result option" where
  "build_network draws house_data com_data d =
     run_stages
       [returns basic_opendss_actions,
        returns voltage_source,
        returns (mv_net_tx d),
        returns (line_codes d),
        returns (connections d),
        returns (try_except_pass (capacitors d)),
        returns (try_except_pass (mv_txs d)),
        returns (lv_tx d),
        returns (lv_nets d),
        lv_load_mod_stmt draws house_data com_data d,
        returns (print_selected_date None),
        returns other_opendss_commands]"

section \<open>Reading a command\<close>

text \<open>
  What the properties below observe of a command: the value interpolated right after
  the literal \<open>key=\<close>; whether a literal part occurs; and, for a command that defines a
  component (\<^verbatim>\<open>new <kind>.<name> ...\<close>, in any case, after leading blanks), the kind
  and the parts of the name.
\<close>

fun attr :: "string \<Rightarrow> fstring \<Rightarrow> cell option" where
  "attr key [] = None"
| "attr key [p] = None"
| "attr key (Lit l # Val v # ps) = (if l = key @ ''='' then Some v else attr key (Val v # ps))"
| "attr key (p # q # ps) = attr key (q # ps)"

definition has_lit :: "string \<Rightarrow> fstring \<Rightarrow> bool" where
  "has_lit l c = (Lit l \<in> set c)"

definition head_text :: "fstring \<Rightarrow> string" where
  "head_text c = (case c of Lit l # _ \<Rightarrow> lower (dropWhile (\<lambda>ch. ch = CHR '' '') l) | _ \<Rightarrow> [])"

definition is_definition :: "fstring \<Rightarrow> bool" where
  "is_definition c = (take 4 (head_text c) = ''new '')"

definition component_kind :: "fstring \<Rightarrow> string" where
  "component_kind c = takeWhile (\<lambda>ch. ch \<noteq> CHR ''.'') (drop 4 (head_text c))"

fun name_parts :: "fstring \<Rightarrow> fstring" where
  "name_parts [] = []"
| "name_parts (Val v # ps) = Val v # name_parts ps"
| "name_parts (Lit l # ps) =
     (if CHR '' '' \<in> set l then [Lit (takeWhile (\<lambda>ch. ch \<noteq> CHR '' '') l)]
      else Lit l # name_parts ps)"

definition component_name :: "fstring \<Rightarrow> fstring" where
  "component_name c =
     filter (\<lambda>p. p \<noteq> Lit [])
       (case c of
          Lit l # ps \<Rightarrow> Lit (drop 1 (dropWhile (\<lambda>ch. ch \<noteq> CHR ''.'') l)) # name_parts ps
        | _ \<Rightarrow> [])"

definition commands_of :: "state \<Rightarrow> fstring list" where
  "commands_of s = concat (map (\<lambda>c. case c of Command f \<Rightarrow> [f] | _ \<Rightarrow> []) (calls s))"

text \<open>The commands sent by the time a stage has returned or raised.\<close>

definition emitted :: "result \<Rightarrow> fstring list" where
  "emitted r = (case r of Inl (e, s) \<Rightarrow> commands_of s | Inr s \<Rightarrow> commands_of s)"

text \<open>The state a stage leaves, whether it returned or raised, and the error if it raised.\<close>

definition final :: "result \<Rightarrow> state" where
  "final r = (case r of Inl (e, s) \<Rightarrow> s | Inr s \<Rightarrow> s)"

definition raised :: "result \<Rightarrow> error option" where
  "raised r = (case r of Inl (e, s) \<Rightarrow> Some e | Inr s \<Rightarrow> None)"

section \<open>Rows a loop gets past\<close>

text \<open>
  A loop over a table stops at the first row that raises. The predicates below say, from
  the row alone, that a row does not raise: the rows a loop reaches are those behind a
  run of such rows, \<open>takeWhile ok element\<close> and the row after them.
\<close>

text \<open>\<^verbatim>\<open>mv_txs\<close>: equal voltages need no lookup; unequal ones look the phase code up.\<close>

definition mv_row_ok :: "mvtx_row \<Rightarrow> bool" where
  "mv_row_ok row \<longleftrightarrow>
     mvtx_row.kvs_primary row = mvtx_row.kvs_secondary row \<or> rwb_permutation (mvtx_row.Conn_Type row)"

text \<open>\<^verbatim>\<open>lv_tx\<close>: a code of length 3 is not looked up; any other is.\<close>

definition lv_row_ok :: "lvtx_row \<Rightarrow> bool" where
  "lv_row_ok row \<longleftrightarrow>
     length (lvtx_row.Conn_Type row) = 3 \<or> rwb_permutation (lvtx_row.Conn_Type row)"

text \<open>
  \<^verbatim>\<open>connections\<close>: a row is a deletion marker when its \<^verbatim>\<open>Element_Name\<close> is "delete" in
  any case; a row that is none needs a row of \<^verbatim>\<open>linecodes\<close> with its key.
\<close>

definition deleted :: "lines_row \<Rightarrow> bool" where
  "deleted row \<longleftrightarrow> lower (Element_Name row) = ''delete''"

definition line_ok :: "linecodes_row list \<Rightarrow> lines_row \<Rightarrow> bool" where
  "line_ok element row \<longleftrightarrow> deleted row \<or> matching_linecodes element (linecode_key row) \<noteq> []"

text \<open>
  \<^verbatim>\<open>lv_load_mod\<close>: what binding the profile \<open>p\<close> to the load of the row at \<open>index\<close> sends.
\<close>

definition load_kind :: "lv_loads_row \<Rightarrow> string" where
  "load_kind row = (if lv_loads_row.phases row = 1 then ''res'' else ''com'')"

definition binding :: "nat \<Rightarrow> lv_loads_row \<Rightarrow> rat list \<Rightarrow> engine_call list" where
  "binding index row p =
     [Command (load_data row),
      Command (load_shape (load_kind row) index p),
      SetActiveElement [Lit ''load.'', Val (load_name row)],
      SetProperty ''daily'' [Lit (''Load_shape_'' @ load_kind row @ ''_''), Val (PyInt (int index))]]"

section \<open>Concrete inputs\<close>

definition state0 :: state where
  "state0 = \<lparr>calls = [], MV_lines_DSSNAME = Map.empty, MV_lines_Ampacity = Map.empty,
             MVLV_txs_DSSNAME = Map.empty, drawn = 0\<rparr>"

definition linecode_example :: linecodes_row where
  "linecode_example =
     \<lparr>linecodes_row.Linecode_ID = PyStr ''ABC-3ph'', linecodes_row.Phases = PyInt 3,
      r1 = PyFloat (1 / 4), x1 = PyFloat (3 / 8), b1 = PyFloat 0, r0 = PyFloat (1 / 2),
      b0 = PyFloat 0, x0 = PyFloat 1, linecodes_row.Units = PyStr ''km'',
      Ampacity1 = 400, Ampacity2 = 350\<rparr>"

text \<open>
  A row of \<^verbatim>\<open>mvtx\<close> with equal rated voltages 12.7 and 12.7 (the double nearest to
  12.7), rated 1000 kVA, and a row with unequal voltages and the phase code \<open>code\<close>.
\<close>

definition regulator_example :: mvtx_row where
  "regulator_example =
     \<lparr>mvtx_row.Substation_ID = PyStr ''REG1'', mvtx_row.Bus1 = PyInt 10, mvtx_row.Bus2 = PyInt 11,
      mvtx_row.Conn_Type = ''RWB'', mvtx_row.kvs_primary = fl (127 / 10),
      mvtx_row.kvs_secondary = fl (127 / 10),
      mvtx_row.kvas_primary = PyFloat 1000, mvtx_row.kvas_secondary = PyFloat 1000,
      mvtx_row.xhl = PyFloat 1, mvtx_row.noloadloss = PyFloat 0, mvtx_row.loadloss = PyFloat 0,
      wdg1_numtaps = 33\<rparr>"

definition swer_example :: "string \<Rightarrow> mvtx_row" where
  "swer_example code =
     \<lparr>mvtx_row.Substation_ID = PyStr ''ISO1'', mvtx_row.Bus1 = PyInt 20, mvtx_row.Bus2 = PyInt 21,
      mvtx_row.Conn_Type = code, mvtx_row.kvs_primary = 22, mvtx_row.kvs_secondary = fl (127 / 10),
      mvtx_row.kvas_primary = PyFloat 100, mvtx_row.kvas_secondary = PyFloat 100,
      mvtx_row.xhl = PyFloat 4, mvtx_row.noloadloss = PyFloat 0, mvtx_row.loadloss = PyFloat 0,
      wdg1_numtaps = 33\<rparr>"

text \<open>A row of \<^verbatim>\<open>lvtx\<close> with the phase code \<open>code\<close>.\<close>

definition lvtx_example :: "string \<Rightarrow> lvtx_row" where
  "lvtx_example code =
     \<lparr>lvtx_row.Substation_ID = PyStr ''S7'', lvtx_row.Bus1 = PyInt 30, lvtx_row.Conn_Type = code,
      lvtx_row.Connection_Primary = PyStr ''Delta'', lvtx_row.Connection_Secondary = PyStr ''Wye'',
      lvtx_row.kvs_primary = PyFloat 22, lvtx_row.kvs_secondary = PyFloat (fl (2 / 5)),
      lvtx_row.kvas_primary = PyFloat 100, lvtx_row.kvas_secondary = PyFloat 100,
      lvtx_row.xhl = PyFloat 4, lvtx_row.noloadloss = PyFloat 0, lvtx_row.loadloss = PyFloat 0,
      wdg1_tap = PyFloat 1\<rparr>"

definition data_empty :: data where
  "data_empty =
     \<lparr>mv_net_txs = Some [], linecodes = Some [], lines = Some [], mvcaps = Some [],
      mvtx = Some [], lvtx = Some [], lv_lines = Some [], lv_loads = Some []\<rparr>"


text \<open>Three MV lines on the line-code of \<open>linecode_example\<close>; the second is a deletion marker.\<close>

definition line_example :: "string \<Rightarrow> int \<Rightarrow> string \<Rightarrow> lines_row" where
  "line_example name number code =
     \<lparr>Element_Name = name, Line_Number = PyInt number, Start_Node = PyInt 1,
      Start_Node_Phase = PyStr ''1.2.3'', End_Node = PyInt 2, End_Node_Phase = PyStr ''1.2.3'',
      lines_row.Phases = 3, Length = PyFloat (1 / 2), lines_row.Units = PyStr ''km'',
      Linecode = code\<rparr>"

definition lines_example :: "lines_row list" where
  "lines_example =
     [line_example ''Feeder 1'' 7 ''ABC'', line_example ''DeLeTe'' 8 ''ABC'',
      line_example ''Feeder 2'' 9 ''ABC'']"

definition data_lines :: data where
  "data_lines = data_empty\<lparr>linecodes := Some [linecode_example], lines := Some lines_example\<rparr>"

text \<open>The same with a line in front whose line-code \<^verbatim>\<open>XYZ-3ph\<close> is in no row of the table.\<close>

definition data_dangling :: data where
  "data_dangling =
     data_empty\<lparr>linecodes := Some [linecode_example],
                lines := Some (line_example ''Spur'' 6 ''XYZ'' # lines_example)\<rparr>"

text \<open>
  Loads: a single-phase one and a three-phase one with \<^verbatim>\<open>tx_cap\<close> \<open>cap\<close>. Profiles of two
  half hours for a single day: the residential pool has one profile with peak 9; the
  commercial pool has one with peak 6 and one with peak 4. The generator gives 0, 0, 1,
  0, 0, ...: the day 0, then the profiles 0 and 1.
\<close>

definition load_example :: "string \<Rightarrow> int \<Rightarrow> rat \<Rightarrow> lv_loads_row" where
  "load_example name n cap =
     \<lparr>load_name = PyStr name, lv_loads_row.bus1 = PyStr ''b1'', lv_loads_row.phases = n,
      kv = PyFloat (1 / 4), pf = PyFloat 1, model = PyInt 1, tx_cap = cap\<rparr>"

definition house_example :: profiles where
  "house_example = [[[9, 1]]]"

definition com_example :: profiles where
  "com_example = [[[6, 2]], [[4, 1]]]"

definition draws_example :: "nat \<Rightarrow> nat" where
  "draws_example k = (if k = 2 then 1 else 0)"

definition data_loads :: data where
  "data_loads = data_empty\<lparr>lv_loads := Some [load_example ''shop'' 3 10, load_example ''home'' 1 10]\<rparr>"

section \<open>Properties of the phase-code table\<close>

lemma phase_keys:
  "three_ph_combi @ two_ph_combi @ one_ph_combi =
     [''RWB'', ''RBW'', ''WRB'', ''WBR'', ''BRW'', ''BWR'',
      ''RB'', ''RW'', ''BR'', ''BW'', ''WR'', ''WB'', ''R'', ''B'', ''W'']"
  by code_simp

lemma str_int_phase: "str_int 1 = ''1''" "str_int 2 = ''2''" "str_int 3 = ''3''"
  by (simp_all add: str_int_def digit_char_def)

lemma phase_keys_rwb: "list_all rwb_permutation (three_ph_combi @ two_ph_combi @ one_ph_combi)"
  unfolding phase_keys by (simp add: rwb_permutation_def)

lemma one_letter_key:
  "a = CHR ''R'' \<or> a = CHR ''W'' \<or> a = CHR ''B'' \<Longrightarrow>
   [a] \<in> set (three_ph_combi @ two_ph_combi @ one_ph_combi)"
  unfolding phase_keys by (elim disjE; simp)

lemma two_letter_key:
  "a = CHR ''R'' \<or> a = CHR ''W'' \<or> a = CHR ''B'' \<Longrightarrow>
   b = CHR ''R'' \<or> b = CHR ''W'' \<or> b = CHR ''B'' \<Longrightarrow> a \<noteq> b \<Longrightarrow>
   [a, b] \<in> set (three_ph_combi @ two_ph_combi @ one_ph_combi)"
  unfolding phase_keys by (elim disjE; simp)

lemma three_letter_key:
  "a = CHR ''R'' \<or> a = CHR ''W'' \<or> a = CHR ''B'' \<Longrightarrow>
   b = CHR ''R'' \<or> b = CHR ''W'' \<or> b = CHR ''B'' \<Longrightarrow>
   c = CHR ''R'' \<or> c = CHR ''W'' \<or> c = CHR ''B'' \<Longrightarrow>
   a \<noteq> b \<Longrightarrow> a \<noteq> c \<Longrightarrow> b \<noteq> c \<Longrightarrow>
   [a, b, c] \<in> set (three_ph_combi @ two_ph_combi @ one_ph_combi)"
  unfolding phase_keys by (elim disjE; simp)

lemma rwb_permutation_iff_key:
  "rwb_permutation code \<longleftrightarrow> code \<in> set (three_ph_combi @ two_ph_combi @ one_ph_combi)"
proof
  assume r: "rwb_permutation code"
  show "code \<in> set (three_ph_combi @ two_ph_combi @ one_ph_combi)"
  proof (cases code)
    case Nil
    with r show ?thesis by (simp add: rwb_permutation_def)
  next
    case (Cons a as)
    note c1 = this
    show ?thesis
    proof (cases as)
      case Nil
      with c1 r have "a = CHR ''R'' \<or> a = CHR ''W'' \<or> a = CHR ''B''"
        by (simp add: rwb_permutation_def)
      then show ?thesis unfolding c1 Nil by (rule one_letter_key)
    next
      case (Cons b bs)
      note c2 = this
      show ?thesis
      proof (cases bs)
        case Nil
        with c1 c2 r have "a = CHR ''R'' \<or> a = CHR ''W'' \<or> a = CHR ''B''"
          "b = CHR ''R'' \<or> b = CHR ''W'' \<or> b = CHR ''B''" "a \<noteq> b"
          by (simp_all add: rwb_permutation_def)
        then show ?thesis unfolding c1 c2 Nil by (rule two_letter_key)
      next
        case (Cons c cs)
        with c1 c2 r have cs: "cs = []" by (simp add: rwb_permutation_def)
        with Cons c1 c2 r have "a = CHR ''R'' \<or> a = CHR ''W'' \<or> a = CHR ''B''"
          "b = CHR ''R'' \<or> b = CHR ''W'' \<or> b = CHR ''B''"
          "c = CHR ''R'' \<or> c = CHR ''W'' \<or> c = CHR ''B''" "a \<noteq> b" "a \<noteq> c" "b \<noteq> c"
          by (simp_all add: rwb_permutation_def)
        then show ?thesis unfolding c1 c2 Cons cs by (rule three_letter_key)
      qed
    qed
  qed
next
  assume "code \<in> set (three_ph_combi @ two_ph_combi @ one_ph_combi)"
  with phase_keys_rwb show "rwb_permutation code" unfolding list_all_iff by blast
qed

lemma phase_numbers_spec:
  "list_all (\<lambda>c. c = CHR ''R'' \<or> c = CHR ''W'' \<or> c = CHR ''B'') code \<Longrightarrow>
   phase_numbers code = Inr (map spec_phase_digit code)"
  by (induction code)
     (auto simp: subscript_def phase_index_def spec_phase_digit_def str_int_phase)

lemma dotted_rwb: "rwb_permutation code \<Longrightarrow> dotted code = Inr (spec_phase_suffix code)"
  by (simp add: dotted_def phase_numbers_spec rwb_permutation_def spec_phase_suffix_def)

lemma dict_comp_total:
  "\<forall>k \<in> set ks. \<exists>v. f k = Inr v \<Longrightarrow>
   \<exists>T. dict_comp f ks d = Inr T \<and>
       (\<forall>k. T k = (if k \<in> set ks then (case f k of Inr v \<Rightarrow> Some v | Inl e \<Rightarrow> None) else d k))"
proof (induction ks arbitrary: d)
  case Nil
  then show ?case by simp
next
  case (Cons k ks)
  then obtain v where v: "f k = Inr v" by auto
  from Cons.prems have "\<forall>k \<in> set ks. \<exists>v. f k = Inr v" by simp
  from Cons.IH[OF this, of "d(k \<mapsto> v)"] obtain T where
    T: "dict_comp f ks (d(k \<mapsto> v)) = Inr T"
       "\<forall>k'. T k' = (if k' \<in> set ks then (case f k' of Inr v \<Rightarrow> Some v | Inl e \<Rightarrow> None)
                     else (d(k \<mapsto> v)) k')"
    by blast
  show ?case using v T by auto
qed

lemma char_to_num_table:
  "\<exists>T. char_to_num = Inr T \<and>
       (\<forall>k. T k = (if rwb_permutation k then Some (spec_phase_suffix k) else None))"
proof -
  have "\<forall>k \<in> set (three_ph_combi @ two_ph_combi @ one_ph_combi). \<exists>v. dotted k = Inr v"
    using dotted_rwb rwb_permutation_iff_key by blast
  from dict_comp_total[OF this, of Map.empty] obtain T where
    T: "char_to_num = Inr T"
       "\<forall>k. T k = (if k \<in> set (three_ph_combi @ two_ph_combi @ one_ph_combi)
                    then (case dotted k of Inr v \<Rightarrow> Some v | Inl e \<Rightarrow> None) else None)"
    unfolding char_to_num_def by blast
  have "T k = (if rwb_permutation k then Some (spec_phase_suffix k) else None)" for k
    using T(2) rwb_permutation_iff_key[of k] dotted_rwb[of k] by (simp del: set_append)
  with T(1) show ?thesis by blast
qed

lemma translate_phase_code_eq:
  "translate_phase_code code =
     (if rwb_permutation code then Inr (spec_phase_suffix code) else Inl KeyError)"
proof -
  from char_to_num_table obtain T where T: "char_to_num = Inr T"
    and Tk: "\<And>k. T k = (if rwb_permutation k then Some (spec_phase_suffix k) else None)"
    by blast
  show ?thesis unfolding translate_phase_code_def T by (simp add: subscript_def Tk)
qed

text \<open>
  C7, as the code has it. The lookup \<^verbatim>\<open>char_to_num[code]\<close> fails exactly when \<open>code\<close> is
  not an arrangement of one to three distinct letters of R, W, B, and then with Python's
  \<^verbatim>\<open>KeyError\<close>; on every such arrangement it returns the dot-separated digits under
  R to 1, W to 2, B to 3.
\<close>

theorem phase_code_translation:
  "(translate_phase_code code = Inl KeyError \<longleftrightarrow> \<not> rwb_permutation code) \<and>
   ((\<exists>e. translate_phase_code code = Inl e) \<longleftrightarrow> \<not> rwb_permutation code) \<and>
   (rwb_permutation code \<longrightarrow> translate_phase_code code = Inr (spec_phase_suffix code))"
  by (simp add: translate_phase_code_eq)

theorem phase_code_translation_witness:
  "rwb_permutation ''RB'' \<and> translate_phase_code ''RB'' = Inr ''1.3'' \<and>
   \<not> rwb_permutation ''RX'' \<and> translate_phase_code ''RX'' = Inl KeyError"
  using phase_code_translation[of "''RB''"] phase_code_translation[of "''RX''"]
  by (simp add: rwb_permutation_def spec_phase_suffix_def spec_phase_digit_def)

text \<open>
  C7 as the spec states it fails: \<^verbatim>\<open>RR\<close> has length 2 and only letters of R, W, B, and
  its translation fails all the same.
\<close>

theorem phase_code_repeated_letter_fails:
  "length ''RR'' = 2 \<and>
   list_all (\<lambda>c. c = CHR ''R'' \<or> c = CHR ''W'' \<or> c = CHR ''B'') ''RR'' \<and>
   translate_phase_code ''RR'' = Inl KeyError"
  by (simp add: translate_phase_code_eq rwb_permutation_def)

section \<open>Stages that only emit\<close>

lemma for_rows_emit:
  "for_rows (\<lambda>(index, row) s. Inr (emit (f row) s)) xs s =
     Inr (emit_all (map (\<lambda>x. f (snd x)) xs) s)"
  by (induction xs arbitrary: s) (auto simp: emit_def emit_all_def)

lemma map_snd_iterrows: "map (\<lambda>x. f (snd x)) (iterrows element) = map f element"
proof -
  have "map snd (iterrows element) = element" by (simp add: iterrows_def)
  then have "map f (map snd (iterrows element)) = map f element" by simp
  then show ?thesis by (simp add: comp_def)
qed

lemma attr_normamp:
  "attr ''normamp'' (linecode_data row) = Some (PyFloat (min (Ampacity1 row) (Ampacity2 row)))"
  by (simp add: linecode_data_def)

text \<open>
  C5. \<^verbatim>\<open>line_codes\<close> sends one line-code definition per row of the table, in order, and
  the value written after \<^verbatim>\<open>normamp=\<close> in the definition of a row is the minimum of
  the row's \<^verbatim>\<open>Ampacity1\<close> and \<^verbatim>\<open>Ampacity2\<close>.
\<close>

theorem line_codes_normamp:
  "linecodes d = Some element \<Longrightarrow>
   line_codes d s = Inr (emit_all (map linecode_data element) s) \<and>
   (\<forall>row \<in> set element.
      attr ''normamp'' (linecode_data row) = Some (PyFloat (min (Ampacity1 row) (Ampacity2 row))))"
  by (simp add: line_codes_def for_table_def for_rows_emit map_snd_iterrows attr_normamp)

theorem line_codes_normamp_witness:
  "emitted (line_codes (data_empty\<lparr>linecodes := Some [linecode_example]\<rparr>) state0)
     = [linecode_data linecode_example] \<and>
   attr ''normamp'' (linecode_data linecode_example) = Some (PyFloat 350)"
  using line_codes_normamp[of "data_empty\<lparr>linecodes := Some [linecode_example]\<rparr>"
      "[linecode_example]" state0]
  by (simp add: emitted_def commands_of_def emit_all_def state0_def linecode_example_def)

section \<open>Properties of the transformer stages\<close>

lemma lower_new: "lower ''New Reactor.Jumper_'' = ''new reactor.jumper_''"
  "lower ''new transformer.'' = ''new transformer.''"
  "lower ''new transformer.mv_f0_lv_'' = ''new transformer.mv_f0_lv_''"
  "lower ''new regcontrol.Reg_'' = ''new regcontrol.reg_''"
  "lower ''set maxcontroliter=100'' = ''set maxcontroliter=100''"
  by (simp_all add: lower_def lower_char_def)

lemmas reading = is_definition_def component_kind_def component_name_def head_text_def
  has_lit_def lower_new

lemma jumpers_definitions: "filter is_definition (jumpers row) = jumpers row"
  by (simp add: jumpers_def reading)


lemma jumpers_not_transformers:
  "filter (\<lambda>c. component_kind c = ''transformer'') (jumpers row) = []"
  by (simp add: jumpers_def reading)

lemma regulator_tx_reading:
  "is_definition (regulator_tx k v row p)"
  "component_kind (regulator_tx k v row p) = ''transformer''"
  "component_name (regulator_tx k v row p) = [Val (mvtx_row.Substation_ID row), Lit ''_'', Val (PyStr p)]"
  "has_lit ''phases=1 '' (regulator_tx k v row p)"
  "has_lit ''windings=2 '' (regulator_tx k v row p)"
  "attr ''kVA'' (regulator_tx k v row p) = Some v"
  by (simp_all add: regulator_tx_def reading)

lemma reg_control_reading:
  "is_definition (reg_control k row p)"
  "component_kind (reg_control k row p) = ''regcontrol''"
  "component_name (reg_control k row p) = [Lit ''Reg_'', Val (mvtx_row.Substation_ID row), Lit ''_'', Val (PyStr p)]"
  by (simp_all add: reg_control_def reading)

lemma set_option_reading:
  "\<not> is_definition [Lit ''set maxcontroliter=100'']"
  "component_kind [Lit ''set maxcontroliter=100''] \<noteq> ''transformer''"
  by (simp_all add: reading)

lemma mv_tx_reading:
  "is_definition (mv_tx suffix row)"
  "component_kind (mv_tx suffix row) = ''transformer''"
  "component_name (mv_tx suffix row) = [Val (mvtx_row.Substation_ID row)]"
  "has_lit ''phases=1 '' (mv_tx suffix row)"
  "has_lit ''windings=3 '' (mv_tx suffix row)"
  "has_lit ''conns=[Delta Wye Wye] '' (mv_tx suffix row)"
  "\<not> has_lit ''windings=2 '' (mv_tx suffix row)"
  "\<not> has_lit ''phases=3 '' (mv_tx suffix row)"
  by (simp_all add: mv_tx_def reading)

lemma subscript_char_to_num:
  "char_to_num = Inr T \<Longrightarrow>
   subscript T code = (if rwb_permutation code then Inr (spec_phase_suffix code) else Inl KeyError)"
proof -
  assume T: "char_to_num = Inr T"
  show ?thesis using translate_phase_code_eq[of code] unfolding translate_phase_code_def T by simp
qed

lemma mv_txs_record_equal:
  "mvtx_row.kvs_primary row = mvtx_row.kvs_secondary row \<Longrightarrow>
   mv_txs_record row =
     Inr ([[Lit ''set maxcontroliter=100'']] @ jumpers row
          @ map (regulator_tx (fl (127 / 10))
                   (np_round (fl (fl (fl (10 / 100) * fl (mvtx_row.kvs_primary row)) / fl (1 + fl (10 / 100)))) 2)
                   row) [''A'', ''B'', ''C'']
          @ map (reg_control (fl (127 / 10)) row) [''A'', ''B'', ''C''])"
proof -
  from char_to_num_table obtain T where T: "char_to_num = Inr T" by blast
  assume "mvtx_row.kvs_primary row = mvtx_row.kvs_secondary row"
  then show ?thesis by (simp add: mv_txs_record_def T mv_txs_commands_def Let_def)
qed

lemma mv_txs_record_unequal:
  "mvtx_row.kvs_primary row \<noteq> mvtx_row.kvs_secondary row \<Longrightarrow>
   mv_txs_record row =
     (if rwb_permutation (mvtx_row.Conn_Type row)
      then Inr [mv_tx (spec_phase_suffix (mvtx_row.Conn_Type row)) row] else Inl KeyError)"
proof -
  from char_to_num_table obtain T where T: "char_to_num = Inr T" by blast
  assume "mvtx_row.kvs_primary row \<noteq> mvtx_row.kvs_secondary row"
  then show ?thesis
    by (simp add: mv_txs_record_def T mv_txs_commands_def Let_def subscript_char_to_num[OF T])
qed

lemma mv_row_ok_iff: "mv_row_ok row \<longleftrightarrow> \<not> isl (mv_txs_record row)"
  by (cases "mvtx_row.kvs_primary row = mvtx_row.kvs_secondary row")
     (simp_all add: mv_row_ok_def mv_txs_record_equal mv_txs_record_unequal)

lemma mv_row_fails: "\<not> mv_row_ok row \<Longrightarrow> mv_txs_record row = Inl KeyError"
  by (simp add: mv_row_ok_def mv_txs_record_unequal)

text \<open>
  A loop whose body sends the commands \<open>f x\<close> of a row, or raises before it sends any,
  and otherwise leaves the calls alone.
\<close>

lemma commands_of_emit_all: "commands_of (emit_all cs s) = commands_of s @ cs"
proof -
  have "concat (map (\<lambda>c. case c of Command f \<Rightarrow> [f] | _ \<Rightarrow> []) (map Command cs)) = cs"
    by (induction cs) simp_all
  then show ?thesis by (simp add: commands_of_def emit_all_def)
qed

lemma commands_of_calls_eq: "calls s' = calls s \<Longrightarrow> commands_of s' = commands_of s"
  by (simp add: commands_of_def)

lemma for_rows_emitting:
  assumes body: "\<And>x s. body x s =
      (case f x of Inl e \<Rightarrow> Inl (e, s) | Inr cs \<Rightarrow> Inr (g x (emit_all cs s)))"
    and g: "\<And>x s. calls (g x s) = calls s"
  shows "emitted (for_rows body xs s) =
      commands_of s @ concat (map (\<lambda>x. case f x of Inl e \<Rightarrow> [] | Inr cs \<Rightarrow> cs)
                                  (takeWhile (\<lambda>x. \<not> isl (f x)) xs)) \<and>
    raised (for_rows body xs s) =
      (case dropWhile (\<lambda>x. \<not> isl (f x)) xs of
         [] \<Rightarrow> None
       | x # _ \<Rightarrow> (case f x of Inl e \<Rightarrow> Some e | Inr cs \<Rightarrow> None))"
proof (induction xs arbitrary: s)
  case Nil
  show ?case by (simp add: emitted_def raised_def)
next
  case (Cons x xs)
  show ?case
  proof (cases "f x")
    case (Inl e)
    then show ?thesis by (simp add: body emitted_def raised_def)
  next
    case (Inr cs)
    have c: "commands_of (g x (emit_all cs s)) = commands_of s @ cs"
      using commands_of_calls_eq[OF g, of x "emit_all cs s"] by (simp add: commands_of_emit_all)
    from Inr Cons.IH[of "g x (emit_all cs s)"] show ?thesis
      by (simp add: body c)
  qed
qed

lemma takeWhile_snd_iterrows:
  "map snd (takeWhile (\<lambda>x. P (snd x)) (iterrows element)) = takeWhile P element"
proof -
  have "map snd (iterrows element) = element" by (simp add: iterrows_def)
  then have "takeWhile P element = takeWhile P (map snd (iterrows element))" by simp
  also have "\<dots> = map snd (takeWhile (P \<circ> snd) (iterrows element))" by (rule takeWhile_map)
  finally show ?thesis by (simp add: comp_def)
qed

lemma dropWhile_snd_iterrows:
  "map snd (dropWhile (\<lambda>x. P (snd x)) (iterrows element)) = dropWhile P element"
proof -
  have "map snd (iterrows element) = element" by (simp add: iterrows_def)
  then have "dropWhile P element = dropWhile P (map snd (iterrows element))" by simp
  also have "\<dots> = map snd (dropWhile (P \<circ> snd) (iterrows element))" by (rule dropWhile_map)
  finally show ?thesis by (simp add: comp_def)
qed

lemma dropWhile_first_fails: "dropWhile P xs = y # ys \<Longrightarrow> \<not> P y"
  using hd_dropWhile[of P xs] by auto

lemma dropWhile_Nil_iff: "dropWhile P xs = [] \<longleftrightarrow> list_all P xs"
  by (simp add: list_all_iff)

lemma dropWhile_not_Nil_iff: "dropWhile P xs \<noteq> [] \<longleftrightarrow> \<not> list_all P xs"
  by (simp add: list_all_iff)

lemma mv_txs_run:
  assumes m: "mvtx d = Some element"
  shows "emitted (mv_txs d s) =
      commands_of s @ concat (map (\<lambda>row. case mv_txs_record row of Inl e \<Rightarrow> [] | Inr cs \<Rightarrow> cs)
                                  (takeWhile mv_row_ok element))"
    and "raised (mv_txs d s) = (if list_all mv_row_ok element then None else Some KeyError)"
proof -
  from char_to_num_table obtain T where T: "char_to_num = Inr T" by blast
  have rec: "mv_txs_commands T row = mv_txs_record row" for row
    by (simp add: mv_txs_record_def T)
  have body: "mv_txs_row T x s =
      (case mv_txs_record (snd x) of Inl e \<Rightarrow> Inl (e, s) | Inr cs \<Rightarrow> Inr (emit_all cs s))" for x s
    by (cases x) (simp add: mv_txs_row_def rec)
  note run = for_rows_emitting[where body = "mv_txs_row T" and f = "\<lambda>x. mv_txs_record (snd x)"
      and g = "\<lambda>x s. s" and xs = "iterrows element" and s = s, OF body, simplified]
  have stage: "mv_txs d s = for_rows (mv_txs_row T) (iterrows element) s"
    by (simp add: mv_txs_def T for_table_def m)
  have ok: "(\<lambda>x. \<not> isl (mv_txs_record (snd x))) = (\<lambda>x. mv_row_ok (snd x))"
    by (simp add: mv_row_ok_iff)
  have "concat (map (\<lambda>x. case mv_txs_record (snd x) of Inl e \<Rightarrow> [] | Inr cs \<Rightarrow> cs)
            (takeWhile (\<lambda>x. mv_row_ok (snd x)) (iterrows element))) =
        concat (map (\<lambda>row. case mv_txs_record row of Inl e \<Rightarrow> [] | Inr cs \<Rightarrow> cs)
            (map snd (takeWhile (\<lambda>x. mv_row_ok (snd x)) (iterrows element))))"
    by (simp add: comp_def)
  then have cs: "concat (map (\<lambda>x. case mv_txs_record (snd x) of Inl e \<Rightarrow> [] | Inr cs \<Rightarrow> cs)
            (takeWhile (\<lambda>x. mv_row_ok (snd x)) (iterrows element))) =
        concat (map (\<lambda>row. case mv_txs_record row of Inl e \<Rightarrow> [] | Inr cs \<Rightarrow> cs)
            (takeWhile mv_row_ok element))"
    by (simp only: takeWhile_snd_iterrows)
  from run show "emitted (mv_txs d s) =
      commands_of s @ concat (map (\<lambda>row. case mv_txs_record row of Inl e \<Rightarrow> [] | Inr cs \<Rightarrow> cs)
                                  (takeWhile mv_row_ok element))"
    by (simp only: stage ok cs)
  show "raised (mv_txs d s) = (if list_all mv_row_ok element then None else Some KeyError)"
  proof (cases "dropWhile (\<lambda>x. mv_row_ok (snd x)) (iterrows element)")
    case Nil
    then have "map snd (dropWhile (\<lambda>x. mv_row_ok (snd x)) (iterrows element)) = []"
      by (simp only: list.map)
    then have "dropWhile mv_row_ok element = []"
      unfolding dropWhile_snd_iterrows .
    then have "list_all mv_row_ok element"
      using dropWhile_Nil_iff[of mv_row_ok element] by blast
    with run Nil show ?thesis by (simp add: stage ok)
  next
    case (Cons y ys)
    then have "\<not> mv_row_ok (snd y)" by (rule dropWhile_first_fails)
    moreover from Cons have "map snd (dropWhile (\<lambda>x. mv_row_ok (snd x)) (iterrows element)) \<noteq> []"
      by (simp only: list.map) simp
    then have "dropWhile mv_row_ok element \<noteq> []"
      unfolding dropWhile_snd_iterrows .
    then have "\<not> list_all mv_row_ok element"
      using dropWhile_Nil_iff[of mv_row_ok element] by blast
    ultimately show ?thesis using run Cons by (simp add: stage ok mv_row_fails)
  qed
qed

lemma lv_tx_record_three:
  "length (lvtx_row.Conn_Type row) = 3 \<Longrightarrow>
   \<exists>c. lv_tx_record index row = Inr c \<and> is_definition c \<and> component_kind c = ''transformer'' \<and>
       has_lit ''phases=3 '' c \<and> has_lit ''windings=2 '' c \<and>
       \<not> has_lit ''phases=1 '' c \<and> \<not> has_lit ''windings=3 '' c"
proof -
  from char_to_num_table obtain T where T: "char_to_num = Inr T" by blast
  assume "length (lvtx_row.Conn_Type row) = 3"
  then show ?thesis
    by (simp add: lv_tx_record_def T lv_tx_data_def lv_tx_tail_def reading)
qed

lemma lv_tx_record_two:
  "length (lvtx_row.Conn_Type row) = 2 \<Longrightarrow> rwb_permutation (lvtx_row.Conn_Type row) \<Longrightarrow>
   \<exists>c. lv_tx_record index row = Inr c \<and> is_definition c \<and> component_kind c = ''transformer'' \<and>
       has_lit ''phases=1 '' c \<and> has_lit ''windings=3 '' c \<and> has_lit ''conns=[Delta Wye Wye] '' c \<and>
       \<not> has_lit ''phases=3 '' c \<and> \<not> has_lit ''windings=2 '' c"
proof -
  from char_to_num_table obtain T where T: "char_to_num = Inr T" by blast
  assume "length (lvtx_row.Conn_Type row) = 2" "rwb_permutation (lvtx_row.Conn_Type row)"
  then show ?thesis
    by (simp add: lv_tx_record_def T lv_tx_data_def lv_tx_tail_def reading
        subscript_char_to_num[OF T])
qed

lemma lv_tx_record_other:
  "length (lvtx_row.Conn_Type row) \<noteq> 3 \<Longrightarrow> length (lvtx_row.Conn_Type row) \<noteq> 2 \<Longrightarrow>
   rwb_permutation (lvtx_row.Conn_Type row) \<Longrightarrow>
   \<exists>c. lv_tx_record index row = Inr c \<and> is_definition c \<and> component_kind c = ''transformer'' \<and>
       has_lit ''phases=1 '' c \<and> has_lit ''windings=2 '' c \<and> has_lit ''conns=[Wye Wye] '' c \<and>
       \<not> has_lit ''phases=3 '' c \<and> \<not> has_lit ''windings=3 '' c"
proof -
  from char_to_num_table obtain T where T: "char_to_num = Inr T" by blast
  assume "length (lvtx_row.Conn_Type row) \<noteq> 3" "length (lvtx_row.Conn_Type row) \<noteq> 2"
    "rwb_permutation (lvtx_row.Conn_Type row)"
  then show ?thesis
    by (simp add: lv_tx_record_def T lv_tx_data_def lv_tx_tail_def reading
        subscript_char_to_num[OF T])
qed

lemma lv_row_fails:
  "\<not> lv_row_ok row \<Longrightarrow> lv_tx_record index row = Inl KeyError"
proof -
  from char_to_num_table obtain T where T: "char_to_num = Inr T" by blast
  assume "\<not> lv_row_ok row"
  then show ?thesis
    by (simp add: lv_row_ok_def lv_tx_record_def T lv_tx_data_def subscript_char_to_num[OF T])
qed

lemma lv_row_ok_iff: "lv_row_ok row \<longleftrightarrow> \<not> isl (lv_tx_record index row)"
proof (cases "lv_row_ok row")
  case False
  then show ?thesis by (simp add: lv_row_fails)
next
  case True
  have "\<exists>c. lv_tx_record index row = Inr c"
  proof (cases "length (lvtx_row.Conn_Type row) = 3")
    case True
    from lv_tx_record_three[OF this, of index] show ?thesis by blast
  next
    case n3: False
    with True have r: "rwb_permutation (lvtx_row.Conn_Type row)" by (simp add: lv_row_ok_def)
    show ?thesis
    proof (cases "length (lvtx_row.Conn_Type row) = 2")
      case True
      from lv_tx_record_two[OF this r, of index] show ?thesis by blast
    next
      case False
      from lv_tx_record_other[OF n3 this r, of index] show ?thesis by blast
    qed
  qed
  with True show ?thesis by auto
qed

lemma lv_tx_run:
  assumes m: "lvtx d = Some element"
  shows "emitted (lv_tx d s) =
      commands_of s @ concat (map (\<lambda>x. case lv_tx_record (fst x) (snd x) of Inl e \<Rightarrow> [] | Inr c \<Rightarrow> [c])
                                  (takeWhile (\<lambda>x. lv_row_ok (snd x)) (iterrows element)))"
    and "raised (lv_tx d s) = (if list_all lv_row_ok element then None else Some KeyError)"
proof -
  from char_to_num_table obtain T where T: "char_to_num = Inr T" by blast
  let ?f = "\<lambda>x. case lv_tx_record (fst x) (snd x) of Inl e \<Rightarrow> Inl e | Inr c \<Rightarrow> Inr [c]"
  let ?g = "\<lambda>x s. s\<lparr>MVLV_txs_DSSNAME :=
      (MVLV_txs_DSSNAME s)(fst x \<mapsto> [Lit ''mv_f0_lv_'', Val (lvtx_row.Substation_ID (snd x))])\<rparr>"
  have rec: "lv_tx_data T i row = lv_tx_record i row" for i row
    by (simp add: lv_tx_record_def T)
  have body: "lv_tx_row T x s =
      (case ?f x of Inl e \<Rightarrow> Inl (e, s) | Inr cs \<Rightarrow> Inr (?g x (emit_all cs s)))" for x s
    by (cases x; cases "lv_tx_record (fst x) (snd x)")
       (simp_all add: lv_tx_row_def rec emit_def emit_all_def Let_def)
  have g: "calls (?g x s) = calls s" for x s by simp
  note run = for_rows_emitting[where body = "lv_tx_row T" and f = ?f and g = ?g
      and xs = "iterrows element" and s = s, OF body g]
  have stage: "lv_tx d s = for_rows (lv_tx_row T) (iterrows element) s"
    by (simp add: lv_tx_def T for_table_def m)
  have ok: "(\<lambda>x. \<not> isl (?f x)) = (\<lambda>x. lv_row_ok (snd x))"
  proof
    fix x show "(\<not> isl (?f x)) = lv_row_ok (snd x)"
      using lv_row_ok_iff[of "snd x" "fst x"] by (cases "lv_tx_record (fst x) (snd x)") simp_all
  qed
  have cs: "(\<lambda>x. case ?f x of Inl e \<Rightarrow> [] | Inr cs \<Rightarrow> cs) =
      (\<lambda>x. case lv_tx_record (fst x) (snd x) of Inl e \<Rightarrow> [] | Inr c \<Rightarrow> [c])"
  proof
    fix x show "(case ?f x of Inl e \<Rightarrow> [] | Inr cs \<Rightarrow> cs) =
      (case lv_tx_record (fst x) (snd x) of Inl e \<Rightarrow> [] | Inr c \<Rightarrow> [c])"
      by (cases "lv_tx_record (fst x) (snd x)") simp_all
  qed
  from run show "emitted (lv_tx d s) =
      commands_of s @ concat (map (\<lambda>x. case lv_tx_record (fst x) (snd x) of Inl e \<Rightarrow> [] | Inr c \<Rightarrow> [c])
                                  (takeWhile (\<lambda>x. lv_row_ok (snd x)) (iterrows element)))"
    unfolding stage ok cs by (rule conjunct1)
  from run have r: "raised (lv_tx d s) =
      (case dropWhile (\<lambda>x. lv_row_ok (snd x)) (iterrows element) of
         [] \<Rightarrow> None
       | x # _ \<Rightarrow> (case ?f x of Inl e \<Rightarrow> Some e | Inr cs \<Rightarrow> None))"
    unfolding stage ok by (rule conjunct2)
  show "raised (lv_tx d s) = (if list_all lv_row_ok element then None else Some KeyError)"
  proof (cases "dropWhile (\<lambda>x. lv_row_ok (snd x)) (iterrows element)")
    case Nil
    then have "map snd (dropWhile (\<lambda>x. lv_row_ok (snd x)) (iterrows element)) = []"
      by (simp only: list.map)
    then have "dropWhile lv_row_ok element = []"
      unfolding dropWhile_snd_iterrows .
    then have "list_all lv_row_ok element"
      using dropWhile_Nil_iff[of lv_row_ok element] by blast
    with r Nil show ?thesis by simp
  next
    case (Cons y ys)
    then have "\<not> lv_row_ok (snd y)" by (rule dropWhile_first_fails)
    then have f: "lv_tx_record (fst y) (snd y) = Inl KeyError" by (rule lv_row_fails)
    from Cons have "map snd (dropWhile (\<lambda>x. lv_row_ok (snd x)) (iterrows element)) \<noteq> []"
      by (simp only: list.map) simp
    then have "dropWhile lv_row_ok element \<noteq> []"
      unfolding dropWhile_snd_iterrows .
    then have "\<not> list_all lv_row_ok element"
      using dropWhile_Nil_iff[of lv_row_ok element] by blast
    with r Cons f show ?thesis by simp
  qed
qed

lemma regulator_kinds:
  "mvtx_row.kvs_primary row = mvtx_row.kvs_secondary row \<Longrightarrow>
   \<exists>cs. mv_txs_record row = Inr cs \<and>
     map component_kind (filter is_definition cs) =
        [''reactor'', ''reactor'', ''reactor'', ''reactor'', ''reactor'', ''reactor'',
         ''transformer'', ''transformer'', ''transformer'',
         ''regcontrol'', ''regcontrol'', ''regcontrol'']"
proof -
  assume eq: "mvtx_row.kvs_primary row = mvtx_row.kvs_secondary row"
  have j: "map component_kind (jumpers row) =
      [''reactor'', ''reactor'', ''reactor'', ''reactor'', ''reactor'', ''reactor'']"
    by (simp add: jumpers_def reading)
  show ?thesis
    unfolding mv_txs_record_equal[OF eq]
    by (rule exI, rule conjI, rule refl)
       (simp add: set_option_reading jumpers_definitions j regulator_tx_reading reg_control_reading)
qed




lemma fl_12_7: "fl (127 / 10) = 3574732204225331 / 281474976710656"
  by code_simp

lemma example_rows_ok:
  "mv_row_ok regulator_example"
  "mv_row_ok (swer_example ''RWB'')"
  "mv_row_ok (swer_example ''RB'')"
  "\<not> mv_row_ok (swer_example ''RR'')"
  by (simp_all add: mv_row_ok_def regulator_example_def swer_example_def rwb_permutation_def fl_12_7)

lemma regulator_example_equal:
  "mvtx_row.kvs_primary regulator_example = mvtx_row.kvs_secondary regulator_example"
  by (simp add: regulator_example_def)

lemma swer_example_unequal:
  "mvtx_row.kvs_primary (swer_example code) \<noteq> mvtx_row.kvs_secondary (swer_example code)"
  by (simp add: swer_example_def fl_12_7)

lemma swer_example_code: "mvtx_row.Conn_Type (swer_example code) = code"
  by (simp add: swer_example_def)

lemma commands_of_state0: "commands_of state0 = []"
  by (simp add: commands_of_def state0_def)

lemma mvtx_update: "mvtx (data_empty\<lparr>mvtx := Some element\<rparr>) = Some element"
  by simp

lemma lvtx_update: "lvtx (data_empty\<lparr>lvtx := Some element\<rparr>) = Some element"
  by simp




lemma np_round_voltage:
  "np_round (fl (fl (fl (10 / 100) * fl (fl (127 / 10))) / fl (1 + fl (10 / 100)))) 2
     = PyFloat (fl (115 / 100))"
  by code_simp

lemma np_round_capacity:
  "np_round (fl (fl (fl (10 / 100) * fl 1000) / fl (1 + fl (10 / 100)))) 2
     = PyFloat (fl (9091 / 100))"
  by code_simp

lemma regulator_example_kVA:
  "map (attr ''kVA'')
     (filter (\<lambda>c. component_kind c = ''transformer'')
        (emitted (mv_txs (data_empty\<lparr>mvtx := Some [regulator_example]\<rparr>) state0)))
     = [Some (PyFloat (fl (115 / 100))), Some (PyFloat (fl (115 / 100))), Some (PyFloat (fl (115 / 100)))]"
proof -
  have v: "mvtx_row.kvs_primary regulator_example = fl (127 / 10)"
    by (simp add: regulator_example_def)
  have tw: "takeWhile mv_row_ok [regulator_example] = [regulator_example]"
    by (simp add: example_rows_ok)
  show ?thesis
    apply (subst mv_txs_run(1)[OF mvtx_update])
    apply (subst tw)
    apply (simp only: list.map concat.simps append_Nil2 commands_of_state0 append_Nil
        mv_txs_record_equal[OF regulator_example_equal] sum.case v np_round_voltage)
    apply (simp only: filter_append filter.simps jumpers_not_transformers set_option_reading
        if_False list.map regulator_tx_reading reg_control_reading if_True append.simps)
    apply (simp add: regulator_tx_reading)
    done
qed

text \<open>
  C3 at a failing input. The row has 12.7 kV on both windings and a primary rated
  capacity of 1000 kVA. The three transformers of the assembly are given 1.15 kVA, which
  is 0.1 / 1.1 of the rated \<^emph>\<open>voltage\<close> 12.7 rounded to two decimals: the source reads
  \<^verbatim>\<open>kva1 = row["kvs_primary"]\<close>. The claim's value, 0.1 / 1.1 of the rated capacity
  1000, is 90.91. All of it is computed in double precision; 1.15 and 90.91 stand for
  the doubles nearest to them.
\<close>

theorem regulator_kVA_uses_voltage:
  "mvtx_row.kvs_primary regulator_example = fl (127 / 10) \<and>
   mvtx_row.kvs_secondary regulator_example = fl (127 / 10) \<and>
   mvtx_row.kvas_primary regulator_example = PyFloat 1000 \<and>
   map (attr ''kVA'')
     (filter (\<lambda>c. component_kind c = ''transformer'')
        (emitted (mv_txs (data_empty\<lparr>mvtx := Some [regulator_example]\<rparr>) state0)))
     = [Some (PyFloat (fl (115 / 100))), Some (PyFloat (fl (115 / 100))), Some (PyFloat (fl (115 / 100)))] \<and>
   np_round (fl (fl (fl (10 / 100) * fl 1000) / fl (1 + fl (10 / 100)))) 2 = PyFloat (fl (9091 / 100)) \<and>
   fl (115 / 100) \<noteq> fl (9091 / 100)"
proof (intro conjI)
  show "mvtx_row.kvs_primary regulator_example = fl (127 / 10)"
    by (simp add: regulator_example_def)
  show "mvtx_row.kvs_secondary regulator_example = fl (127 / 10)"
    by (simp add: regulator_example_def)
  show "mvtx_row.kvas_primary regulator_example = PyFloat 1000"
    by (simp add: regulator_example_def)
  show "map (attr ''kVA'')
     (filter (\<lambda>c. component_kind c = ''transformer'')
        (emitted (mv_txs (data_empty\<lparr>mvtx := Some [regulator_example]\<rparr>) state0)))
     = [Some (PyFloat (fl (115 / 100))), Some (PyFloat (fl (115 / 100))), Some (PyFloat (fl (115 / 100)))]"
    by (rule regulator_example_kVA)
  show "np_round (fl (fl (fl (10 / 100) * fl 1000) / fl (1 + fl (10 / 100)))) 2 = PyFloat (fl (9091 / 100))"
    by (rule np_round_capacity)
  show "fl (115 / 100) \<noteq> fl (9091 / 100)"
    by code_simp
qed

text \<open>
  C1, as the code has it. The two emitters decide differently, and each stops at the
  first row that raises: it sends the commands of the rows before that row and nothing
  for the rows behind it. \<^verbatim>\<open>mv_txs\<close> chooses by the rated voltages alone: equal voltages
  give the regulator assembly; unequal voltages give one three-winding single-phase
  Delta/Wye/Wye transformer for every phase code of the table, whatever its length, and
  \<^verbatim>\<open>KeyError\<close> for any other code. The choice by the length of the phase code is that of
  \<^verbatim>\<open>lv_tx\<close>, which does not read the voltages: length 3 gives a two-winding three-phase
  transformer, length 2 a three-winding single-phase Delta/Wye/Wye one, length 1 a
  two-winding single-phase Wye/Wye one; a code of another length, or of length 1 or 2
  that is not in the table, raises \<^verbatim>\<open>KeyError\<close>.
\<close>

theorem topology_selection:
  "(mvtx d = Some element \<longrightarrow>
      emitted (mv_txs d s) =
        commands_of s @ concat (map (\<lambda>row. case mv_txs_record row of Inl e \<Rightarrow> [] | Inr cs \<Rightarrow> cs)
                                    (takeWhile mv_row_ok element)) \<and>
      raised (mv_txs d s) = (if list_all mv_row_ok element then None else Some KeyError)) \<and>
   (lvtx d = Some lelement \<longrightarrow>
      emitted (lv_tx d s) =
        commands_of s @ concat (map (\<lambda>x. case lv_tx_record (fst x) (snd x) of Inl e \<Rightarrow> [] | Inr c \<Rightarrow> [c])
                                    (takeWhile (\<lambda>x. lv_row_ok (snd x)) (iterrows lelement))) \<and>
      raised (lv_tx d s) = (if list_all lv_row_ok lelement then None else Some KeyError)) \<and>
   (mvtx_row.kvs_primary row = mvtx_row.kvs_secondary row \<longrightarrow>
      (\<exists>cs. mv_txs_record row = Inr cs \<and>
         map component_kind (filter is_definition cs) =
           [''reactor'', ''reactor'', ''reactor'', ''reactor'', ''reactor'', ''reactor'',
            ''transformer'', ''transformer'', ''transformer'',
            ''regcontrol'', ''regcontrol'', ''regcontrol''])) \<and>
   (mvtx_row.kvs_primary row \<noteq> mvtx_row.kvs_secondary row \<and> rwb_permutation (mvtx_row.Conn_Type row) \<longrightarrow>
      (\<exists>c. mv_txs_record row = Inr [c] \<and> component_kind c = ''transformer'' \<and>
         has_lit ''phases=1 '' c \<and> has_lit ''windings=3 '' c \<and> has_lit ''conns=[Delta Wye Wye] '' c)) \<and>
   (mvtx_row.kvs_primary row \<noteq> mvtx_row.kvs_secondary row \<and> \<not> rwb_permutation (mvtx_row.Conn_Type row) \<longrightarrow>
      mv_txs_record row = Inl KeyError) \<and>
   (length (lvtx_row.Conn_Type lrow) = 3 \<longrightarrow>
      (\<exists>c. lv_tx_record index lrow = Inr c \<and> component_kind c = ''transformer'' \<and>
         has_lit ''phases=3 '' c \<and> has_lit ''windings=2 '' c)) \<and>
   (length (lvtx_row.Conn_Type lrow) = 2 \<and> rwb_permutation (lvtx_row.Conn_Type lrow) \<longrightarrow>
      (\<exists>c. lv_tx_record index lrow = Inr c \<and> component_kind c = ''transformer'' \<and>
         has_lit ''phases=1 '' c \<and> has_lit ''windings=3 '' c \<and> has_lit ''conns=[Delta Wye Wye] '' c)) \<and>
   (length (lvtx_row.Conn_Type lrow) = 1 \<and> rwb_permutation (lvtx_row.Conn_Type lrow) \<longrightarrow>
      (\<exists>c. lv_tx_record index lrow = Inr c \<and> component_kind c = ''transformer'' \<and>
         has_lit ''phases=1 '' c \<and> has_lit ''windings=2 '' c \<and> has_lit ''conns=[Wye Wye] '' c)) \<and>
   (length (lvtx_row.Conn_Type lrow) \<noteq> 3 \<and> \<not> rwb_permutation (lvtx_row.Conn_Type lrow) \<longrightarrow>
      lv_tx_record index lrow = Inl KeyError)"
proof (intro conjI impI)
  assume m: "mvtx d = Some element"
  show "emitted (mv_txs d s) =
        commands_of s @ concat (map (\<lambda>row. case mv_txs_record row of Inl e \<Rightarrow> [] | Inr cs \<Rightarrow> cs)
                                    (takeWhile mv_row_ok element))"
    by (rule mv_txs_run(1)[OF m])
  show "raised (mv_txs d s) = (if list_all mv_row_ok element then None else Some KeyError)"
    by (rule mv_txs_run(2)[OF m])
next
  assume m: "lvtx d = Some lelement"
  show "emitted (lv_tx d s) =
        commands_of s @ concat (map (\<lambda>x. case lv_tx_record (fst x) (snd x) of Inl e \<Rightarrow> [] | Inr c \<Rightarrow> [c])
                                    (takeWhile (\<lambda>x. lv_row_ok (snd x)) (iterrows lelement)))"
    by (rule lv_tx_run(1)[OF m])
  show "raised (lv_tx d s) = (if list_all lv_row_ok lelement then None else Some KeyError)"
    by (rule lv_tx_run(2)[OF m])
next
  assume "mvtx_row.kvs_primary row = mvtx_row.kvs_secondary row"
  then show "\<exists>cs. mv_txs_record row = Inr cs \<and>
         map component_kind (filter is_definition cs) =
           [''reactor'', ''reactor'', ''reactor'', ''reactor'', ''reactor'', ''reactor'',
            ''transformer'', ''transformer'', ''transformer'',
            ''regcontrol'', ''regcontrol'', ''regcontrol'']"
    by (rule regulator_kinds)
next
  assume "mvtx_row.kvs_primary row \<noteq> mvtx_row.kvs_secondary row \<and> rwb_permutation (mvtx_row.Conn_Type row)"
  then show "\<exists>c. mv_txs_record row = Inr [c] \<and> component_kind c = ''transformer'' \<and>
         has_lit ''phases=1 '' c \<and> has_lit ''windings=3 '' c \<and> has_lit ''conns=[Delta Wye Wye] '' c"
    by (simp add: mv_txs_record_unequal mv_tx_reading)
next
  assume "mvtx_row.kvs_primary row \<noteq> mvtx_row.kvs_secondary row \<and> \<not> rwb_permutation (mvtx_row.Conn_Type row)"
  then show "mv_txs_record row = Inl KeyError"
    by (simp add: mv_txs_record_unequal)
next
  assume "length (lvtx_row.Conn_Type lrow) = 3"
  from lv_tx_record_three[OF this, of index]
  show "\<exists>c. lv_tx_record index lrow = Inr c \<and> component_kind c = ''transformer'' \<and>
         has_lit ''phases=3 '' c \<and> has_lit ''windings=2 '' c"
    by (elim exE conjE) (intro exI conjI, assumption+)
next
  assume "length (lvtx_row.Conn_Type lrow) = 2 \<and> rwb_permutation (lvtx_row.Conn_Type lrow)"
  then have "length (lvtx_row.Conn_Type lrow) = 2" "rwb_permutation (lvtx_row.Conn_Type lrow)"
    by simp_all
  from lv_tx_record_two[OF this, of index]
  show "\<exists>c. lv_tx_record index lrow = Inr c \<and> component_kind c = ''transformer'' \<and>
         has_lit ''phases=1 '' c \<and> has_lit ''windings=3 '' c \<and> has_lit ''conns=[Delta Wye Wye] '' c"
    by (elim exE conjE) (intro exI conjI, assumption+)
next
  assume "length (lvtx_row.Conn_Type lrow) = 1 \<and> rwb_permutation (lvtx_row.Conn_Type lrow)"
  then have "length (lvtx_row.Conn_Type lrow) \<noteq> 3" "length (lvtx_row.Conn_Type lrow) \<noteq> 2"
    "rwb_permutation (lvtx_row.Conn_Type lrow)"
    by simp_all
  from lv_tx_record_other[OF this, of index]
  show "\<exists>c. lv_tx_record index lrow = Inr c \<and> component_kind c = ''transformer'' \<and>
         has_lit ''phases=1 '' c \<and> has_lit ''windings=2 '' c \<and> has_lit ''conns=[Wye Wye] '' c"
    by (elim exE conjE) (intro exI conjI, assumption+)
next
  assume "length (lvtx_row.Conn_Type lrow) \<noteq> 3 \<and> \<not> rwb_permutation (lvtx_row.Conn_Type lrow)"
  then show "lv_tx_record index lrow = Inl KeyError"
    by (simp add: lv_row_fails lv_row_ok_def)
qed

lemma lvtx_example_code: "lvtx_row.Conn_Type (lvtx_example code) = code"
  by (simp add: lvtx_example_def)

lemma lvtx_examples_ok:
  "lv_row_ok (lvtx_example ''RWB'')" "lv_row_ok (lvtx_example ''RB'')"
  "lv_row_ok (lvtx_example ''W'')" "\<not> lv_row_ok (lvtx_example ''XY'')"
  by (simp_all add: lv_row_ok_def lvtx_example_code rwb_permutation_def)

lemma iterrows_five: "iterrows [a, b, c, d, e] = [(0, a), (1, b), (2, c), (3, d), (4, e)]"
  by (simp add: iterrows_def upt_rec)

lemma swer_example_record:
  "rwb_permutation code \<Longrightarrow>
   mv_txs_record (swer_example code) = Inr [mv_tx (spec_phase_suffix code) (swer_example code)]"
  "\<not> rwb_permutation code \<Longrightarrow> mv_txs_record (swer_example code) = Inl KeyError"
  by (simp_all add: mv_txs_record_unequal[OF swer_example_unequal] swer_example_code)

text \<open>
  Both emitters on tables of five rows. In each the fourth row raises, so the row behind
  it, though a good one, gets nothing.
\<close>

theorem topology_selection_witness:
  "mvtx (data_empty\<lparr>mvtx := Some [regulator_example, swer_example ''RWB'', swer_example ''R'',
                                   swer_example ''RR'', regulator_example]\<rparr>)
     = Some [regulator_example, swer_example ''RWB'', swer_example ''R'', swer_example ''RR'',
             regulator_example] \<and>
   map component_kind (filter is_definition
       (emitted (mv_txs (data_empty\<lparr>mvtx := Some [regulator_example, swer_example ''RWB'',
                                   swer_example ''R'', swer_example ''RR'', regulator_example]\<rparr>) state0)))
     = [''reactor'', ''reactor'', ''reactor'', ''reactor'', ''reactor'', ''reactor'',
        ''transformer'', ''transformer'', ''transformer'',
        ''regcontrol'', ''regcontrol'', ''regcontrol'', ''transformer'', ''transformer''] \<and>
   raised (mv_txs (data_empty\<lparr>mvtx := Some [regulator_example, swer_example ''RWB'',
                             swer_example ''R'', swer_example ''RR'', regulator_example]\<rparr>) state0)
     = Some KeyError \<and>
   lvtx (data_empty\<lparr>lvtx := Some [lvtx_example ''RWB'', lvtx_example ''RB'',
                         lvtx_example ''W'', lvtx_example ''XY'', lvtx_example ''RWB'']\<rparr>)
     = Some [lvtx_example ''RWB'', lvtx_example ''RB'', lvtx_example ''W'', lvtx_example ''XY'',
             lvtx_example ''RWB''] \<and>
   (\<exists>c0 c1 c2.
      emitted (lv_tx (data_empty\<lparr>lvtx := Some [lvtx_example ''RWB'', lvtx_example ''RB'',
                         lvtx_example ''W'', lvtx_example ''XY'', lvtx_example ''RWB'']\<rparr>) state0)
        = [c0, c1, c2] \<and>
      has_lit ''phases=3 '' c0 \<and> has_lit ''windings=2 '' c0 \<and>
      has_lit ''phases=1 '' c1 \<and> has_lit ''windings=3 '' c1 \<and>
      has_lit ''phases=1 '' c2 \<and> has_lit ''windings=2 '' c2) \<and>
   raised (lv_tx (data_empty\<lparr>lvtx := Some [lvtx_example ''RWB'', lvtx_example ''RB'',
                     lvtx_example ''W'', lvtx_example ''XY'', lvtx_example ''RWB'']\<rparr>) state0)
     = Some KeyError"
proof -
  let ?E = "[regulator_example, swer_example ''RWB'', swer_example ''R'', swer_example ''RR'',
             regulator_example]"
  let ?L = "[lvtx_example ''RWB'', lvtx_example ''RB'', lvtx_example ''W'', lvtx_example ''XY'',
             lvtx_example ''RWB'']"
  let ?dm = "data_empty\<lparr>mvtx := Some ?E\<rparr>"
  let ?dl = "data_empty\<lparr>lvtx := Some ?L\<rparr>"
  have m: "mvtx ?dm = Some ?E" by simp
  have l: "lvtx ?dl = Some ?L" by simp
  note tm = topology_selection[of ?dm ?E state0 "[]" regulator_example "lvtx_example ''RWB''" 0,
      THEN conjunct1, rule_format, OF m]
  note tl = topology_selection[of ?dl "[]" state0 ?L regulator_example "lvtx_example ''RWB''" 0,
      THEN conjunct2, THEN conjunct1, rule_format, OF l]
  \<comment> \<open>the rows of \<^verbatim>\<open>mvtx\<close>\<close>
  from regulator_kinds[OF regulator_example_equal] obtain cs where
    r0: "mv_txs_record regulator_example = Inr cs"
    and k0: "map component_kind (filter is_definition cs) =
           [''reactor'', ''reactor'', ''reactor'', ''reactor'', ''reactor'', ''reactor'',
            ''transformer'', ''transformer'', ''transformer'',
            ''regcontrol'', ''regcontrol'', ''regcontrol'']"
    by (elim exE conjE) (rule that)
  have rw: "rwb_permutation ''RWB''" "rwb_permutation ''R''" "\<not> rwb_permutation ''RR''"
    by (simp_all add: rwb_permutation_def)
  have okm: "mv_row_ok regulator_example" "mv_row_ok (swer_example ''RWB'')"
    "mv_row_ok (swer_example ''R'')" "\<not> mv_row_ok (swer_example ''RR'')"
    using swer_example_unequal
    by (simp_all add: mv_row_ok_def regulator_example_equal swer_example_code rw)
  from tm have em: "emitted (mv_txs ?dm state0) =
        commands_of state0 @ concat (map (\<lambda>row. case mv_txs_record row of Inl e \<Rightarrow> [] | Inr cs \<Rightarrow> cs)
                                    (takeWhile mv_row_ok ?E))"
    by (rule conjunct1)
  from tm have rm: "raised (mv_txs ?dm state0) = (if list_all mv_row_ok ?E then None else Some KeyError)"
    by (rule conjunct2)
  from em have em': "emitted (mv_txs ?dm state0) =
      cs @ [mv_tx (spec_phase_suffix ''RWB'') (swer_example ''RWB''),
            mv_tx (spec_phase_suffix ''R'') (swer_example ''R'')]"
    by (simp add: okm r0 swer_example_record rw commands_of_state0)
  have km: "map component_kind (filter is_definition (emitted (mv_txs ?dm state0)))
     = [''reactor'', ''reactor'', ''reactor'', ''reactor'', ''reactor'', ''reactor'',
        ''transformer'', ''transformer'', ''transformer'',
        ''regcontrol'', ''regcontrol'', ''regcontrol'', ''transformer'', ''transformer'']"
    unfolding em' by (simp add: k0 mv_tx_reading)
  from rm have rm': "raised (mv_txs ?dm state0) = Some KeyError"
    by (simp add: okm)
  \<comment> \<open>the rows of \<^verbatim>\<open>lvtx\<close>\<close>
  have len: "length (lvtx_row.Conn_Type (lvtx_example ''RWB'')) = 3"
    "length (lvtx_row.Conn_Type (lvtx_example ''RB'')) = 2"
    "rwb_permutation (lvtx_row.Conn_Type (lvtx_example ''RB''))"
    "length (lvtx_row.Conn_Type (lvtx_example ''W'')) \<noteq> 3"
    "length (lvtx_row.Conn_Type (lvtx_example ''W'')) \<noteq> 2"
    "rwb_permutation (lvtx_row.Conn_Type (lvtx_example ''W''))"
    by (simp_all add: lvtx_example_code rwb_permutation_def)
  from lv_tx_record_three[OF len(1), of 0] obtain c0 where
    l0: "lv_tx_record 0 (lvtx_example ''RWB'') = Inr c0"
    and h0: "has_lit ''phases=3 '' c0" "has_lit ''windings=2 '' c0"
    by (elim exE conjE) (rule that)
  from lv_tx_record_two[OF len(2) len(3), of "Suc 0"] obtain c1 where
    l1: "lv_tx_record (Suc 0) (lvtx_example ''RB'') = Inr c1"
    and h1: "has_lit ''phases=1 '' c1" "has_lit ''windings=3 '' c1"
    by (elim exE conjE) (rule that)
  from lv_tx_record_other[OF len(4) len(5) len(6), of 2] obtain c2 where
    l2: "lv_tx_record 2 (lvtx_example ''W'') = Inr c2"
    and h2: "has_lit ''phases=1 '' c2" "has_lit ''windings=2 '' c2"
    by (elim exE conjE) (rule that)
  from tl have el: "emitted (lv_tx ?dl state0) =
        commands_of state0 @ concat (map (\<lambda>x. case lv_tx_record (fst x) (snd x) of Inl e \<Rightarrow> [] | Inr c \<Rightarrow> [c])
                                    (takeWhile (\<lambda>x. lv_row_ok (snd x)) (iterrows ?L)))"
    by (rule conjunct1)
  from tl have rl: "raised (lv_tx ?dl state0) = (if list_all lv_row_ok ?L then None else Some KeyError)"
    by (rule conjunct2)
  from el have el': "emitted (lv_tx ?dl state0) = [c0, c1, c2]"
    by (simp add: iterrows_five lvtx_examples_ok l0 l1 l2 commands_of_state0)
  from rl have rl': "raised (lv_tx ?dl state0) = Some KeyError"
    by (simp add: lvtx_examples_ok)
  have ex: "\<exists>c0 c1 c2. emitted (lv_tx ?dl state0) = [c0, c1, c2] \<and>
      has_lit ''phases=3 '' c0 \<and> has_lit ''windings=2 '' c0 \<and>
      has_lit ''phases=1 '' c1 \<and> has_lit ''windings=3 '' c1 \<and>
      has_lit ''phases=1 '' c2 \<and> has_lit ''windings=2 '' c2"
    by (rule exI[of _ c0], rule exI[of _ c1], rule exI[of _ c2])
       (intro conjI, rule el', rule h0(1), rule h0(2), rule h1(1), rule h1(2), rule h2(1), rule h2(2))
  show ?thesis
    by (intro conjI) (rule m, rule km, rule rm', rule l, rule ex, rule rl')
qed

text \<open>
  C1 as the spec states it fails: a row of \<^verbatim>\<open>mvtx\<close> with unequal voltages and the
  three-letter code \<^verbatim>\<open>RWB\<close> gets a single-phase three-winding transformer, not a
  three-phase two-winding one.
\<close>

theorem three_letter_code_gets_three_windings:
  "mvtx_row.kvs_primary (swer_example ''RWB'') \<noteq> mvtx_row.kvs_secondary (swer_example ''RWB'') \<and>
   length (mvtx_row.Conn_Type (swer_example ''RWB'')) = 3 \<and>
   map (\<lambda>c. (has_lit ''phases=3 '' c, has_lit ''windings=2 '' c, has_lit ''phases=1 '' c, has_lit ''windings=3 '' c))
     (emitted (mv_txs (data_empty\<lparr>mvtx := Some [swer_example ''RWB'']\<rparr>) state0))
     = [(False, False, True, True)]"
proof (intro conjI)
  show "mvtx_row.kvs_primary (swer_example ''RWB'') \<noteq> mvtx_row.kvs_secondary (swer_example ''RWB'')"
    by (rule swer_example_unequal)
  show "length (mvtx_row.Conn_Type (swer_example ''RWB'')) = 3"
    by (simp add: swer_example_code)
  have r: "rwb_permutation ''RWB''" by (simp add: rwb_permutation_def)
  show "map (\<lambda>c. (has_lit ''phases=3 '' c, has_lit ''windings=2 '' c, has_lit ''phases=1 '' c, has_lit ''windings=3 '' c))
     (emitted (mv_txs (data_empty\<lparr>mvtx := Some [swer_example ''RWB'']\<rparr>) state0))
     = [(False, False, True, True)]"
    unfolding mv_txs_run(1)[OF mvtx_update]
    by (simp add: example_rows_ok commands_of_state0 swer_example_record r mv_tx_reading)
qed

end
